theory Spec2Isabelle
  imports Main "HOL-Library.Word" "HOL-Library.AList" "HOL-Library.Multiset"
begin

section \<open>Strings\<close>

text \<open>
  A JavaScript string is a sequence of 16-bit code units. The program compares
  strings for equality, concatenates them and trims them; it never indexes them.
\<close>

type_synonym jsstring = "16 word list"

definition ascii :: "string \<Rightarrow> jsstring" where
  "ascii s = map of_char s"

text \<open>
  \<open>String.prototype.trim\<close> removes the WhiteSpace and LineTerminator code points
  of ECMAScript from both ends: TAB, LF, VT, FF, CR, SP, NBSP, U+1680,
  U+2000..U+200A, U+2028, U+2029, U+202F, U+205F, U+3000 and U+FEFF.
\<close>

definition is_js_space :: "16 word \<Rightarrow> bool" where
  "is_js_space c \<longleftrightarrow>
     c = 0x09 \<or> c = 0x0A \<or> c = 0x0B \<or> c = 0x0C \<or> c = 0x0D \<or> c = 0x20 \<or>
     c = 0xA0 \<or> c = 0x1680 \<or> (0x2000 \<le> c \<and> c \<le> 0x200A) \<or>
     c = 0x2028 \<or> c = 0x2029 \<or> c = 0x202F \<or> c = 0x205F \<or>
     c = 0x3000 \<or> c = 0xFEFF"

definition trim :: "jsstring \<Rightarrow> jsstring" where
  "trim s = rev (dropWhile is_js_space (rev (dropWhile is_js_space s)))"

text \<open>Decimal rendering of an integer, as a template literal renders an integer
  value (the HTTP status code).\<close>

definition digit_unit :: "nat \<Rightarrow> 16 word" where
  "digit_unit d = of_nat (48 + d)"

fun show_nat :: "nat \<Rightarrow> jsstring" where
  "show_nat n = (if n < 10 then [digit_unit n] else show_nat (n div 10) @ [digit_unit (n mod 10)])"

declare show_nat.simps [simp del]

definition show_int :: "int \<Rightarrow> jsstring" where
  "show_int i = (if i < 0 then ascii ''-'' @ show_nat (nat (- i)) else show_nat (nat i))"

section \<open>Values\<close>

text \<open>
  Primitive values and the values \<open>JSON.parse\<close> builds. The type \<open>'n\<close> is the
  type of numbers: the program does no arithmetic on the numbers it is given, it
  only prints, tests and compares them, and those operations belong to the
  script engine (see \<open>engine\<close> below). An object is its list of own properties
  in creation order.
\<close>

datatype 'n prim =
    Undefined
  | Null
  | Bool bool
  | Num 'n
  | Str jsstring

datatype 'n jsval =
    Prim "'n prim"
  | Arr "'n jsval list"
  | Obj "(jsstring \<times> 'n jsval) list"

text \<open>An \<open>Error\<close> object: its name and its message.\<close>

datatype js_error = JsError (err_name: jsstring) (err_message: jsstring)

text \<open>\<open>Error.prototype.toString\<close>.\<close>

definition error_toString :: "js_error \<Rightarrow> jsstring" where
  "error_toString e =
     (if err_message e = [] then err_name e
      else if err_name e = [] then err_message e
      else err_name e @ ascii '': '' @ err_message e)"

section \<open>The script engine\<close>

text \<open>
  The built-ins of the JavaScript engine that the program calls and that are not
  part of the repository. Every definition below takes them as a parameter, so
  that each theorem holds for whatever the engine computes.
\<close>

record 'n engine =
  num_toString :: "'n \<Rightarrow> jsstring"                \<comment> \<open>Number::toString\<close>
  num_gt_zero :: "'n \<Rightarrow> bool"                     \<comment> \<open>\<open>x > 0\<close> on numbers (false on NaN)\<close>
  num_falsy :: "'n \<Rightarrow> bool"                       \<comment> \<open>\<open>x\<close> is \<open>0\<close> or NaN\<close>
  num_time_clip :: "'n \<Rightarrow> int option"             \<comment> \<open>TimeClip; \<open>None\<close> is NaN\<close>
  string_to_number :: "jsstring \<Rightarrow> 'n"            \<comment> \<open>StringToNumber\<close>
  json_parse :: "jsstring \<Rightarrow> js_error + 'n jsval"  \<comment> \<open>\<open>JSON.parse\<close>\<close>
  json_stringify :: "'n jsval \<Rightarrow> jsstring"        \<comment> \<open>\<open>JSON.stringify\<close>\<close>
  date_parse :: "jsstring \<Rightarrow> int option"          \<comment> \<open>\<open>Date.parse\<close>; \<open>None\<close> is NaN\<close>
  date_toISOString :: "int \<Rightarrow> jsstring"          \<comment> \<open>of a valid time value\<close>
  date_toString :: "int \<Rightarrow> jsstring"             \<comment> \<open>of a valid time value\<close>
  err_to_primitive :: "js_error"                 \<comment> \<open>the TypeError of ToPrimitive\<close>
  err_read_nullish :: "'n prim \<Rightarrow> jsstring \<Rightarrow> js_error"
    \<comment> \<open>the TypeError of reading a property of \<open>null\<close> or \<open>undefined\<close>\<close>

subsection \<open>Conversions\<close>

definition prim_to_string :: "'n engine \<Rightarrow> 'n prim \<Rightarrow> jsstring" where
  "prim_to_string E p =
     (case p of
        Undefined \<Rightarrow> ascii ''undefined''
      | Null \<Rightarrow> ascii ''null''
      | Bool b \<Rightarrow> (if b then ascii ''true'' else ascii ''false'')
      | Num n \<Rightarrow> num_toString E n
      | Str s \<Rightarrow> s)"

definition has_own :: "(jsstring \<times> 'a) list \<Rightarrow> jsstring \<Rightarrow> bool" where
  "has_own ps k \<longleftrightarrow> map_of ps k \<noteq> None"

text \<open>
  ToString of a value (\<open>String(v)\<close>, a template literal, string concatenation).
  An array is the join of its elements with a comma, \<open>null\<close> and \<open>undefined\<close>
  elements being empty. An object built by \<open>JSON.parse\<close> inherits
  \<open>Object.prototype.toString\<close> unless it has an own property \<open>toString\<close>; such a
  property is never callable, and the conversion then raises a TypeError.
\<close>

fun to_string :: "'n engine \<Rightarrow> 'n jsval \<Rightarrow> js_error + jsstring"
  and join_elems :: "'n engine \<Rightarrow> 'n jsval list \<Rightarrow> js_error + jsstring"
  and elem_string :: "'n engine \<Rightarrow> 'n jsval \<Rightarrow> js_error + jsstring"
where
  "to_string E (Prim p) = Inr (prim_to_string E p)"
| "to_string E (Arr xs) = join_elems E xs"
| "to_string E (Obj ps) =
     (if has_own ps (ascii ''toString'') then Inl (err_to_primitive E)
      else Inr (ascii ''[object Object]''))"
| "join_elems E [] = Inr []"
| "join_elems E [x] = elem_string E x"
| "join_elems E (x # y # ys) =
     (case elem_string E x of
        Inl e \<Rightarrow> Inl e
      | Inr s \<Rightarrow>
          (case join_elems E (y # ys) of
             Inl e \<Rightarrow> Inl e
           | Inr t \<Rightarrow> Inr (s @ ascii '','' @ t)))"
| "elem_string E (Prim Undefined) = Inr []"
| "elem_string E (Prim Null) = Inr []"
| "elem_string E v = to_string E v"

text \<open>
  Reading a property \<open>v.k\<close>. Reading from \<open>null\<close> or \<open>undefined\<close> raises a
  TypeError; an object gives its own property or \<open>undefined\<close>; any other value
  gives \<open>undefined\<close>. This is exact for every name that no built-in prototype
  defines, which covers each name the program reads (\<open>action\<close>, \<open>customerId\<close>,
  \<open>clientId\<close>, \<open>title\<close>, \<open>message\<close>, \<open>recipients\<close>).
\<close>

definition get_prop :: "'n engine \<Rightarrow> 'n jsval \<Rightarrow> jsstring \<Rightarrow> js_error + 'n jsval" where
  "get_prop E v k =
     (case v of
        Obj ps \<Rightarrow> Inr (case map_of ps k of None \<Rightarrow> Prim Undefined | Some x \<Rightarrow> x)
      | Prim Undefined \<Rightarrow> Inl (err_read_nullish E Undefined k)
      | Prim Null \<Rightarrow> Inl (err_read_nullish E Null k)
      | _ \<Rightarrow> Inr (Prim Undefined))"

text \<open>ToBoolean on a primitive, negated: the values that \<open>||\<close> skips.\<close>

definition prim_falsy :: "'n engine \<Rightarrow> 'n prim \<Rightarrow> bool" where
  "prim_falsy E p =
     (case p of
        Undefined \<Rightarrow> True
      | Null \<Rightarrow> True
      | Bool b \<Rightarrow> \<not> b
      | Num n \<Rightarrow> num_falsy E n
      | Str s \<Rightarrow> s = [])"

text \<open>
  \<open>v > 0\<close>: the left operand is converted to a primitive and then to a number.
  \<open>undefined\<close> is NaN, \<open>null\<close> is \<open>0\<close>, \<open>true\<close> is \<open>1\<close>; a string, and an array or
  object through its string, goes through StringToNumber.
\<close>

definition js_gt_zero :: "'n engine \<Rightarrow> 'n jsval \<Rightarrow> js_error + bool" where
  "js_gt_zero E v =
     (case v of
        Prim Undefined \<Rightarrow> Inr False
      | Prim Null \<Rightarrow> Inr False
      | Prim (Bool b) \<Rightarrow> Inr b
      | Prim (Num n) \<Rightarrow> Inr (num_gt_zero E n)
      | Prim (Str s) \<Rightarrow> Inr (num_gt_zero E (string_to_number E s))
      | _ \<Rightarrow>
          (case to_string E v of
             Inl e \<Rightarrow> Inl e
           | Inr s \<Rightarrow> Inr (num_gt_zero E (string_to_number E s))))"

section \<open>Services and effects\<close>

text \<open>
  A sheet is a grid of cells addressed from row 1 and column 1.
  \<open>getValues\<close> returns numbers, booleans, dates and strings; an empty cell is the
  empty string. A date cell holds a valid time value in milliseconds.
\<close>

datatype 'n cell =
    CStr jsstring
  | CNum 'n
  | CBool bool
  | CDate int

record 'n sheet =
  sheetName :: jsstring
  lastRow :: nat
  lastColumn :: nat
  cellAt :: "nat \<Rightarrow> nat \<Rightarrow> 'n cell"

type_synonym 'n spreadsheet = "jsstring \<Rightarrow> 'n sheet option"

record fetch_options =
  fo_method :: jsstring
  fo_contentType :: jsstring
  fo_headers :: "(jsstring \<times> jsstring) list"
  fo_payload :: jsstring
  fo_muteHttpExceptions :: bool

record http_response =
  responseCode :: int
  contentText :: jsstring

text \<open>
  The Apps Script services: \<open>SpreadsheetApp.openById\<close> (which raises when the
  spreadsheet cannot be opened), \<open>getSheetByName\<close> (\<open>None\<close> is \<open>null\<close>), the script
  properties (\<open>None\<close> is \<open>null\<close>) and \<open>UrlFetchApp.fetch\<close>. The program calls no
  service that writes, so the services are read and never updated.
\<close>

record 'n services =
  openById :: "jsstring \<Rightarrow> js_error + 'n spreadsheet"
  getProperty :: "jsstring \<Rightarrow> jsstring option"
  fetch :: "jsstring \<Rightarrow> fetch_options \<Rightarrow> js_error + http_response"
  err_bad_range :: "js_error"   \<comment> \<open>raised by \<open>getRange\<close> for an empty range\<close>

text \<open>
  The calls that leave the script are recorded in order: a log line, the read of
  a script property, opening the spreadsheet, looking a sheet up, reading the
  values of a range, and the HTTP call. (\<open>getLastRow\<close> and \<open>getLastColumn\<close> are
  read off the sheet and leave no record.) A computation returns the calls it
  made and either its result or the exception it raised.
\<close>

datatype event =
    Logged jsstring
  | GetProperty jsstring
  | OpenById jsstring
  | GetSheetByName jsstring
  | ReadRange jsstring nat nat nat nat
  | UrlFetch jsstring fetch_options

type_synonym 'a eff = "event list \<times> (js_error + 'a)"

definition ret :: "'a \<Rightarrow> 'a eff" where
  "ret x = ([], Inr x)"

definition throw :: "js_error \<Rightarrow> 'a eff" where
  "throw e = ([], Inl e)"

definition of_result :: "js_error + 'a \<Rightarrow> 'a eff" where
  "of_result r = ([], r)"

definition emit :: "event \<Rightarrow> unit eff" where
  "emit ev = ([ev], Inr ())"

definition seq :: "'a eff \<Rightarrow> ('a \<Rightarrow> 'b eff) \<Rightarrow> 'b eff" where
  "seq m f =
     (case m of
        (t, Inl e) \<Rightarrow> (t, Inl e)
      | (t, Inr x) \<Rightarrow> (case f x of (t', r) \<Rightarrow> (t @ t', r)))"

definition try_catch :: "'a eff \<Rightarrow> (js_error \<Rightarrow> 'a eff) \<Rightarrow> 'a eff" where
  "try_catch m h =
     (case m of
        (t, Inl e) \<Rightarrow> (case h e of (t', r) \<Rightarrow> (t @ t', r))
      | (t, Inr x) \<Rightarrow> (t, Inr x))"

definition log :: "jsstring \<Rightarrow> unit eff" where
  "log msg = emit (Logged msg)"

section \<open>Utility functions\<close>

record text_output =
  content :: jsstring
  mimeType :: jsstring

definition createJsonResponse :: "'n engine \<Rightarrow> 'n jsval \<Rightarrow> text_output" where
  "createJsonResponse E data = \<lparr>content = json_stringify E data, mimeType = ascii ''JSON''\<rparr>"

text \<open>The envelope \<open>{ status, message }\<close>.\<close>

definition envelope :: "string \<Rightarrow> jsstring \<Rightarrow> 'n jsval" where
  "envelope st msg =
     Obj [(ascii ''status'', Prim (Str (ascii st))), (ascii ''message'', Prim (Str msg))]"

type_synonym 'n row_record = "(jsstring \<times> 'n prim) list"

definition record_val :: "'n row_record \<Rightarrow> 'n jsval" where
  "record_val r = Obj (map (\<lambda>(k, v). (k, Prim v)) r)"

text \<open>\<open>row[key]\<close> on a record.\<close>

definition get_field :: "'n row_record \<Rightarrow> jsstring \<Rightarrow> 'n prim" where
  "get_field r k = (case map_of r k of None \<Rightarrow> Undefined | Some v \<Rightarrow> v)"

text \<open>
  \<open>rowObject[header] = value\<close>. An existing property keeps its place and takes the
  new value, a new one is added at the end. The name \<open>__proto__\<close> is the accessor
  of \<open>Object.prototype\<close>: assigning a primitive to it changes nothing and creates
  no property.
\<close>

definition set_field :: "'n row_record \<Rightarrow> jsstring \<Rightarrow> 'n prim \<Rightarrow> 'n row_record" where
  "set_field r k v = (if k = ascii ''__proto__'' then r else AList.update k v r)"

text \<open>The property key of a header cell: ToString of the cell.\<close>

definition cell_key :: "'n engine \<Rightarrow> 'n cell \<Rightarrow> jsstring" where
  "cell_key E c =
     (case c of
        CStr s \<Rightarrow> s
      | CNum n \<Rightarrow> num_toString E n
      | CBool b \<Rightarrow> (if b then ascii ''true'' else ascii ''false'')
      | CDate t \<Rightarrow> date_toString E t)"

text \<open>\<open>row[index] instanceof Date ? row[index].toISOString() : row[index]\<close>;
  an index past the end of the row reads \<open>undefined\<close>.\<close>

definition cell_value :: "'n engine \<Rightarrow> 'n cell list \<Rightarrow> nat \<Rightarrow> 'n prim" where
  "cell_value E row i =
     (if i < length row then
        (case row ! i of
           CStr s \<Rightarrow> Str s
         | CNum n \<Rightarrow> Num n
         | CBool b \<Rightarrow> Bool b
         | CDate t \<Rightarrow> Str (date_toISOString E t))
      else Undefined)"

text \<open>The \<open>headers.forEach\<close> loop, from index \<open>i\<close> on.\<close>

fun fill_row :: "'n engine \<Rightarrow> 'n cell list \<Rightarrow> nat \<Rightarrow> 'n cell list \<Rightarrow> 'n row_record \<Rightarrow> 'n row_record" where
  "fill_row E [] i row obj = obj"
| "fill_row E (h # hs) i row obj =
     fill_row E hs (Suc i) row (set_field obj (cell_key E h) (cell_value E row i))"

definition row_to_object :: "'n engine \<Rightarrow> 'n cell list \<Rightarrow> 'n cell list \<Rightarrow> 'n row_record" where
  "row_to_object E headers row = fill_row E headers 0 row []"

text \<open>\<open>sheet.getRange(row, column, numRows, numColumns).getValues()\<close>.\<close>

definition getRange_getValues ::
  "'n services \<Rightarrow> 'n sheet \<Rightarrow> nat \<Rightarrow> nat \<Rightarrow> nat \<Rightarrow> nat \<Rightarrow> 'n cell list list eff" where
  "getRange_getValues S sh r c nr nc =
     (if r < 1 \<or> c < 1 \<or> nr < 1 \<or> nc < 1 then throw (err_bad_range S)
      else seq (emit (ReadRange (sheetName sh) r c nr nc)) (\<lambda>_.
           ret (map (\<lambda>i. map (\<lambda>j. cellAt sh i j) [c ..< c + nc]) [r ..< r + nr])))"

text \<open>\<open>getSheetData\<close>. The header row is \<open>getValues()[0]\<close>; were it \<open>undefined\<close>,
  \<open>headers.forEach\<close> would raise on the first data row.\<close>

definition getSheetData :: "'n engine \<Rightarrow> 'n services \<Rightarrow> 'n sheet option \<Rightarrow> 'n row_record list eff" where
  "getSheetData E S sheet =
     (case sheet of
        None \<Rightarrow> ret []
      | Some sh \<Rightarrow>
          if lastRow sh < 2 then ret []
          else
            seq (getRange_getValues S sh 1 1 1 (lastColumn sh)) (\<lambda>hv.
            seq (getRange_getValues S sh 2 1 (lastRow sh - 1) (lastColumn sh)) (\<lambda>data.
            case hv of
              headers # _ \<Rightarrow> ret (map (row_to_object E headers) data)
            | [] \<Rightarrow>
                (case data of
                   [] \<Rightarrow> ret []
                 | _ \<Rightarrow> throw (err_read_nullish E Undefined (ascii ''forEach''))))))"

section \<open>Data fetching handlers\<close>

definition SPREADSHEET_ID :: jsstring where
  "SPREADSHEET_ID = ascii ''1rOjQlttUpNEb6sxAVQ9uZVXoMMTzJF0KLjiwZyUen8U''"

text \<open>The sheet names and column names of the source, as code units.\<close>

definition SHEET_CUSTOMERS :: jsstring where
  "SHEET_CUSTOMERS = [0x05DC, 0x05E7, 0x05D5, 0x05D7, 0x05D5, 0x05EA]"

definition SHEET_CONTAINER_RENTALS :: jsstring where
  "SHEET_CONTAINER_RENTALS =
     [0x05E9, 0x05DB, 0x05D9, 0x05E8, 0x05D5, 0x05EA, 0x0020,
      0x05DE, 0x05DB, 0x05D5, 0x05DC, 0x05D5, 0x05EA]"

definition SHEET_MATERIAL_ORDERS :: jsstring where
  "SHEET_MATERIAL_ORDERS =
     [0x05D4, 0x05D6, 0x05DE, 0x05E0, 0x05D5, 0x05EA, 0x0020,
      0x05D7, 0x05D5, 0x05DE, 0x05E8, 0x05D9, 0x0020, 0x05D1, 0x05E0, 0x05D9, 0x05DF]"

definition SHEET_CONTAINER_ORDERS :: jsstring where
  "SHEET_CONTAINER_ORDERS =
     [0x05D4, 0x05D6, 0x05DE, 0x05E0, 0x05D5, 0x05EA, 0x0020,
      0x05DE, 0x05DB, 0x05D5, 0x05DC, 0x05D5, 0x05EA]"

definition KEY_CUSTOMER_NUMBER :: jsstring where
  "KEY_CUSTOMER_NUMBER =
     [0x05DE, 0x05E1, 0x05E4, 0x05E8, 0x0020, 0x05DC, 0x05E7, 0x05D5, 0x05D7]"

definition KEY_PHONE :: jsstring where
  "KEY_PHONE = [0x05D8, 0x05DC, 0x05E4, 0x05D5, 0x05DF]"

definition KEY_RECEIVED_DATE :: jsstring where
  "KEY_RECEIVED_DATE =
     [0x05EA, 0x05D0, 0x05E8, 0x05D9, 0x05DA, 0x0020, 0x05E7, 0x05DC, 0x05D9, 0x05D8, 0x05D4]"

definition KEY_ORDER_DATE :: jsstring where
  "KEY_ORDER_DATE =
     [0x05EA, 0x05D0, 0x05E8, 0x05D9, 0x05DA, 0x0020, 0x05D4, 0x05D6, 0x05DE, 0x05E0, 0x05D4]"

definition open_spreadsheet :: "'n services \<Rightarrow> jsstring \<Rightarrow> 'n spreadsheet eff" where
  "open_spreadsheet S ident = seq (emit (OpenById ident)) (\<lambda>_. of_result (openById S ident))"

definition getSheetByName :: "'n spreadsheet \<Rightarrow> jsstring \<Rightarrow> 'n sheet option eff" where
  "getSheetByName ss name = seq (emit (GetSheetByName name)) (\<lambda>_. ret (ss name))"

text \<open>\<open>String(row[key]).trim()\<close>.\<close>

definition trimmed_field :: "'n engine \<Rightarrow> 'n row_record \<Rightarrow> jsstring \<Rightarrow> jsstring" where
  "trimmed_field E row k = trim (prim_to_string E (get_field row k))"

text \<open>The predicate given to \<open>customersData.find\<close>.\<close>

definition matches_customer :: "'n engine \<Rightarrow> jsstring \<Rightarrow> 'n row_record \<Rightarrow> bool" where
  "matches_customer E customerId row \<longleftrightarrow>
     trimmed_field E row KEY_CUSTOMER_NUMBER = customerId \<or>
     trimmed_field E row KEY_PHONE = customerId"

abbreviation client_not_found :: "'n jsval" where
  "client_not_found \<equiv> envelope ''error'' (ascii ''Client not found'')"

definition client_data ::
  "'n row_record \<Rightarrow> 'n row_record list \<Rightarrow> 'n row_record list \<Rightarrow> 'n jsval" where
  "client_data user clientContainers clientMaterialOrders =
     Obj [(ascii ''status'', Prim (Str (ascii ''success''))),
          (ascii ''user'', record_val user),
          (ascii ''containers'', Arr (map record_val clientContainers)),
          (ascii ''materialOrders'', Arr (map record_val clientMaterialOrders))]"

definition handleGetClientData :: "'n engine \<Rightarrow> 'n services \<Rightarrow> 'n jsval \<Rightarrow> text_output eff" where
  "handleGetClientData E S payload =
     seq (open_spreadsheet S SPREADSHEET_ID) (\<lambda>ss.
     seq (of_result (get_prop E payload (ascii ''customerId''))) (\<lambda>cid.
     seq (of_result (to_string E cid)) (\<lambda>cid_string.
     let customerId = trim cid_string in
     seq (getSheetByName ss SHEET_CUSTOMERS) (\<lambda>customersSheet.
     seq (getSheetData E S customersSheet) (\<lambda>customersData.
     case find (matches_customer E customerId) customersData of
       None \<Rightarrow> ret (createJsonResponse E client_not_found)
     | Some user \<Rightarrow>
         let actualCustomerId = trimmed_field E user KEY_CUSTOMER_NUMBER in
         seq (getSheetByName ss SHEET_CONTAINER_RENTALS) (\<lambda>containersSheet.
         seq (getSheetData E S containersSheet) (\<lambda>containersData.
         let clientContainers =
               filter (\<lambda>row. trimmed_field E row KEY_CUSTOMER_NUMBER = actualCustomerId)
                 containersData in
         seq (getSheetByName ss SHEET_MATERIAL_ORDERS) (\<lambda>materialsSheet.
         seq (getSheetData E S materialsSheet) (\<lambda>materialsData.
         let clientMaterialOrders =
               filter (\<lambda>row. trimmed_field E row KEY_CUSTOMER_NUMBER = actualCustomerId)
                 materialsData in
         ret (createJsonResponse E
                (client_data user clientContainers clientMaterialOrders)))))))))))"

text \<open>\<open>{ ...order, orderType: t }\<close>: a copy of the record with \<open>orderType\<close> set.\<close>

definition with_orderType :: "jsstring \<Rightarrow> 'n row_record \<Rightarrow> 'n row_record" where
  "with_orderType t order = AList.update (ascii ''orderType'') (Str t) order"

text \<open>\<open>order[received] || order[ordered]\<close>.\<close>

definition order_date_field :: "'n engine \<Rightarrow> 'n row_record \<Rightarrow> 'n prim" where
  "order_date_field E order =
     (if prim_falsy E (get_field order KEY_RECEIVED_DATE) then get_field order KEY_ORDER_DATE
      else get_field order KEY_RECEIVED_DATE)"

text \<open>The time value of \<open>new Date(p)\<close> for a primitive \<open>p\<close>; \<open>None\<close> is NaN, an
  invalid date.\<close>

definition new_Date :: "'n engine \<Rightarrow> 'n prim \<Rightarrow> int option" where
  "new_Date E p =
     (case p of
        Undefined \<Rightarrow> None
      | Null \<Rightarrow> Some 0
      | Bool b \<Rightarrow> Some (if b then 1 else 0)
      | Num n \<Rightarrow> num_time_clip E n
      | Str s \<Rightarrow> date_parse E s)"

definition order_time :: "'n engine \<Rightarrow> 'n row_record \<Rightarrow> int option" where
  "order_time E order = new_Date E (order_date_field E order)"

text \<open>The comparator \<open>(a, b) => new Date(..b..) - new Date(..a..)\<close>; \<open>None\<close> is NaN.
  Only the sign of the difference is used.\<close>

definition compare_orders :: "'n engine \<Rightarrow> 'n row_record \<Rightarrow> 'n row_record \<Rightarrow> int option" where
  "compare_orders E a b =
     (case (order_time E b, order_time E a) of
        (Some tb, Some ta) \<Rightarrow> Some (tb - ta)
      | _ \<Rightarrow> None)"

text \<open>
  \<open>Array.prototype.sort\<close> with a comparator. The sort is stable and reads a NaN
  from the comparator as \<open>0\<close>. For a consistent comparator ECMAScript fixes the
  result, the stable sorted arrangement; it is computed here by insertion, each
  element going before the first one it does not have to follow. For an
  inconsistent comparator, as one that returns NaN for some pairs only,
  ECMAScript leaves the order to the engine.
\<close>

definition cmp_le :: "('a \<Rightarrow> 'a \<Rightarrow> int option) \<Rightarrow> 'a \<Rightarrow> 'a \<Rightarrow> bool" where
  "cmp_le cmp x y \<longleftrightarrow> (case cmp x y of None \<Rightarrow> True | Some d \<Rightarrow> d \<le> 0)"

fun sort_insert :: "('a \<Rightarrow> 'a \<Rightarrow> int option) \<Rightarrow> 'a \<Rightarrow> 'a list \<Rightarrow> 'a list" where
  "sort_insert cmp x [] = [x]"
| "sort_insert cmp x (y # ys) =
     (if cmp_le cmp x y then x # y # ys else y # sort_insert cmp x ys)"

definition js_sort :: "('a \<Rightarrow> 'a \<Rightarrow> int option) \<Rightarrow> 'a list \<Rightarrow> 'a list" where
  "js_sort cmp xs = foldr (sort_insert cmp) xs []"

definition all_orders :: "'n row_record list \<Rightarrow> 'n jsval" where
  "all_orders os =
     Obj [(ascii ''status'', Prim (Str (ascii ''success''))),
          (ascii ''orders'', Arr (map record_val os))]"

definition merged_orders ::
  "'n engine \<Rightarrow> 'n row_record list \<Rightarrow> 'n row_record list \<Rightarrow> 'n row_record list" where
  "merged_orders E materialsData containersData =
     js_sort (compare_orders E)
       (map (with_orderType (ascii ''materials'')) materialsData @
        map (with_orderType (ascii ''container'')) containersData)"

definition handleGetAllOrders :: "'n engine \<Rightarrow> 'n services \<Rightarrow> text_output eff" where
  "handleGetAllOrders E S =
     seq (open_spreadsheet S SPREADSHEET_ID) (\<lambda>ss.
     seq (getSheetByName ss SHEET_MATERIAL_ORDERS) (\<lambda>materialsSheet.
     seq (getSheetByName ss SHEET_CONTAINER_ORDERS) (\<lambda>containersSheet.
     seq (getSheetData E S materialsSheet) (\<lambda>materialsData.
     seq (getSheetData E S containersSheet) (\<lambda>containersData.
     ret (createJsonResponse E
            (all_orders (merged_orders E materialsData containersData))))))))"

section \<open>Data mutation handlers\<close>

abbreviation status_updated :: "'n jsval" where
  "status_updated \<equiv> envelope ''success'' (ascii ''Status updated successfully (simulation).'')"

definition handleUpdateOrderStatus :: "'n engine \<Rightarrow> 'n jsval \<Rightarrow> text_output eff" where
  "handleUpdateOrderStatus E payload = ret (createJsonResponse E status_updated)"

section \<open>Notification handler\<close>

definition read_property :: "'n services \<Rightarrow> jsstring \<Rightarrow> jsstring option eff" where
  "read_property S k = seq (emit (GetProperty k)) (\<lambda>_. ret (getProperty S k))"

text \<open>\<open>!p\<close> for a script property: \<open>null\<close> and the empty string are falsy.
  The handler tests it by cases: a property that is \<open>null\<close>, or the empty string.\<close>

definition property_missing :: "jsstring option \<Rightarrow> bool" where
  "property_missing p \<longleftrightarrow> (case p of None \<Rightarrow> True | Some v \<Rightarrow> v = [])"

definition ONESIGNAL_URL :: jsstring where
  "ONESIGNAL_URL = ascii ''https://onesignal.com/api/v1/notifications''"

definition credentials_missing_msg :: jsstring where
  "credentials_missing_msg = ascii ''OneSignal App ID or API Key not set in Script Properties.''"

definition build_notification ::
  "jsstring \<Rightarrow> 'n jsval \<Rightarrow> 'n jsval \<Rightarrow> jsstring \<Rightarrow> 'n jsval" where
  "build_notification app_id title message client =
     Obj [(ascii ''app_id'', Prim (Str app_id)),
          (ascii ''contents'', Obj [(ascii ''en'', message), (ascii ''he'', message)]),
          (ascii ''headings'', Obj [(ascii ''en'', title), (ascii ''he'', title)]),
          (ascii ''include_external_user_ids'', Arr [Prim (Str client)])]"

definition build_options :: "'n engine \<Rightarrow> jsstring \<Rightarrow> 'n jsval \<Rightarrow> fetch_options" where
  "build_options E api_key notification =
     \<lparr>fo_method = ascii ''post'',
      fo_contentType = ascii ''application/json'',
      fo_headers = [(ascii ''Authorization'', ascii ''Basic '' @ api_key)],
      fo_payload = json_stringify E notification,
      fo_muteHttpExceptions = True\<rparr>"

definition url_fetch :: "'n services \<Rightarrow> jsstring \<Rightarrow> fetch_options \<Rightarrow> http_response eff" where
  "url_fetch S url options = seq (emit (UrlFetch url options)) (\<lambda>_. of_result (fetch S url options))"

definition sent_msg :: "jsstring \<Rightarrow> jsstring" where
  "sent_msg recipients =
     ascii ''Notification sent successfully to '' @ recipients @ ascii '' recipient(s).''"

definition no_recipients_msg :: "jsstring \<Rightarrow> jsstring" where
  "no_recipients_msg client =
     ascii ''Notification sent, but no recipients found for Client ID: '' @ client @
     ascii ''. Please verify the client has enabled notifications and is correctly identified in OneSignal.''"

definition failed_status_msg :: "int \<Rightarrow> jsstring \<Rightarrow> jsstring" where
  "failed_status_msg code body =
     ascii ''Failed to send notification. OneSignal returned status '' @ show_int code @
     ascii ''. Details: '' @ body"

definition script_error_msg :: "js_error \<Rightarrow> jsstring" where
  "script_error_msg err =
     ascii ''Failed to send notification due to a script error: '' @ error_toString err"

text \<open>The body of the \<open>try\<close> block.\<close>

definition send_and_classify ::
  "'n engine \<Rightarrow> 'n services \<Rightarrow> 'n jsval \<Rightarrow> fetch_options \<Rightarrow> jsstring \<Rightarrow> text_output eff" where
  "send_and_classify E S notification options client =
     seq (log (ascii ''Sending to OneSignal API. Payload: '' @ json_stringify E notification)) (\<lambda>_.
     seq (url_fetch S ONESIGNAL_URL options) (\<lambda>response.
     let code = responseCode response; body = contentText response in
     seq (log (ascii ''OneSignal API Response Code: '' @ show_int code)) (\<lambda>_.
     seq (log (ascii ''OneSignal API Response Body: '' @ body)) (\<lambda>_.
     if code = 200 then
       seq (of_result (json_parse E body)) (\<lambda>parsedBody.
       seq (of_result (get_prop E parsedBody (ascii ''recipients''))) (\<lambda>recipients.
       seq (of_result (js_gt_zero E recipients)) (\<lambda>positive.
       if positive then
         seq (of_result (to_string E recipients)) (\<lambda>count.
         ret (createJsonResponse E (envelope ''success'' (sent_msg count))))
       else
         seq (log (ascii ''Warning: '' @ no_recipients_msg client)) (\<lambda>_.
         ret (createJsonResponse E (envelope ''warning'' (no_recipients_msg client)))))))
     else
       seq (log (ascii ''Error: '' @ failed_status_msg code body)) (\<lambda>_.
       ret (createJsonResponse E (envelope ''error'' (failed_status_msg code body))))))))"

text \<open>The destructuring \<open>const { clientId, title, message } = payload\<close> reads the
  three properties in that order and raises a TypeError on \<open>null\<close> and
  \<open>undefined\<close>.\<close>

definition handleSendNotification :: "'n engine \<Rightarrow> 'n services \<Rightarrow> 'n jsval \<Rightarrow> text_output eff" where
  "handleSendNotification E S payload =
     seq (log (ascii ''Attempting to send notification. Received payload: '' @
               json_stringify E payload)) (\<lambda>_.
     seq (read_property S (ascii ''ONE_SIGNAL_APP_ID'')) (\<lambda>app_id.
     seq (read_property S (ascii ''ONE_SIGNAL_REST_API_KEY'')) (\<lambda>api_key.
     let missing =
           seq (log (ascii ''ERROR in handleSendNotification: '' @ credentials_missing_msg)) (\<lambda>_.
           ret (createJsonResponse E (envelope ''error'' credentials_missing_msg)))
     in case (app_id, api_key) of
       (Some ONE_SIGNAL_APP_ID, Some REST_API_KEY) \<Rightarrow>
         if ONE_SIGNAL_APP_ID = [] \<or> REST_API_KEY = [] then missing
         else
           seq (of_result (get_prop E payload (ascii ''clientId''))) (\<lambda>clientId.
           seq (of_result (get_prop E payload (ascii ''title''))) (\<lambda>title.
           seq (of_result (get_prop E payload (ascii ''message''))) (\<lambda>message.
           seq (of_result (to_string E clientId)) (\<lambda>client.
           let notification = build_notification ONE_SIGNAL_APP_ID title message client;
               options = build_options E REST_API_KEY notification in
           try_catch (send_and_classify E S notification options client) (\<lambda>err.
             seq (log (ascii ''Fatal Error: '' @ script_error_msg err)) (\<lambda>_.
             ret (createJsonResponse E (envelope ''error'' (script_error_msg err)))))))))
     | _ \<Rightarrow> missing)))"

section \<open>The router\<close>

definition SCRIPT_VERSION :: jsstring where
  "SCRIPT_VERSION = ascii ''v1.3''"

text \<open>The request event: \<open>postData\<close> is \<open>e.postData.contents\<close>, and \<open>None\<close> an
  event without \<open>postData\<close>, on which the read raises a TypeError.\<close>

record post_event =
  postData :: "jsstring option"

definition unknown_action_msg :: "jsstring \<Rightarrow> jsstring" where
  "unknown_action_msg action = ascii ''Unknown action: '' @ action"

definition server_error_msg :: "js_error \<Rightarrow> jsstring" where
  "server_error_msg err = ascii ''Invalid request or server error: '' @ error_toString err"

text \<open>The \<open>switch\<close>: strict equality with each case label, so a value that is not
  a string takes the default branch.\<close>

definition dispatch ::
  "'n engine \<Rightarrow> 'n services \<Rightarrow> 'n jsval \<Rightarrow> 'n jsval \<Rightarrow> jsstring \<Rightarrow> text_output eff" where
  "dispatch E S payload action action_string =
     (let unknown =
            seq (log (ascii ''Error: Unknown action requested: '' @ action_string)) (\<lambda>_.
            ret (createJsonResponse E (envelope ''error'' (unknown_action_msg action_string))))
      in case action of
           Prim (Str a) \<Rightarrow>
             if a = ascii ''getClientData'' then handleGetClientData E S payload
             else if a = ascii ''getAdminDashboardData'' \<or> a = ascii ''getAllOrders''
               then handleGetAllOrders E S
             else if a = ascii ''updateOrderStatus'' then handleUpdateOrderStatus E payload
             else if a = ascii ''sendNotificationToClient'' then handleSendNotification E S payload
             else unknown
         | _ \<Rightarrow> unknown)"

definition started_msg :: jsstring where
  "started_msg = ascii ''API '' @ SCRIPT_VERSION @ ascii '' Running...''"

definition received_msg :: "'n engine \<Rightarrow> jsstring \<Rightarrow> 'n jsval \<Rightarrow> jsstring" where
  "received_msg E action payload =
     ascii ''Received action: '' @ action @ ascii '' with payload: '' @ json_stringify E payload"

text \<open>The body of the \<open>try\<close> block of \<open>doPost\<close>.\<close>

definition doPost_try :: "'n engine \<Rightarrow> 'n services \<Rightarrow> post_event \<Rightarrow> text_output eff" where
  "doPost_try E S e =
     seq (case postData e of
            None \<Rightarrow> throw (err_read_nullish E Undefined (ascii ''contents''))
          | Some contents \<Rightarrow> ret contents) (\<lambda>contents.
     seq (of_result (json_parse E contents)) (\<lambda>payload.
     seq (of_result (get_prop E payload (ascii ''action''))) (\<lambda>action.
     seq (of_result (to_string E action)) (\<lambda>action_string.
     seq (log (received_msg E action_string payload)) (\<lambda>_.
     dispatch E S payload action action_string)))))"

text \<open>\<open>doPost\<close>: the first log line, the \<open>try\<close> block, and the \<open>catch\<close> block, which
  turns every exception into an envelope.\<close>

definition doPost :: "'n engine \<Rightarrow> 'n services \<Rightarrow> post_event \<Rightarrow> event list \<times> text_output" where
  "doPost E S e =
     (case doPost_try E S e of
        (t, Inr response) \<Rightarrow> (Logged started_msg # t, response)
      | (t, Inl err) \<Rightarrow>
          (Logged started_msg # t @
             [Logged (ascii ''Critical Error in doPost: '' @ error_toString err)],
           createJsonResponse E (envelope ''error'' (server_error_msg err))))"

section \<open>The contents of a sheet\<close>

text \<open>What \<open>getSheetData\<close> reads from a sheet: the cells of row 1, and the cells
  of the rows from 2 to the last row, over the columns 1 to the last column.\<close>

definition header_cells :: "'n sheet \<Rightarrow> 'n cell list" where
  "header_cells sh = map (cellAt sh 1) [1 ..< 1 + lastColumn sh]"

definition data_rows :: "'n sheet \<Rightarrow> 'n cell list list" where
  "data_rows sh = map (\<lambda>i. map (cellAt sh i) [1 ..< 1 + lastColumn sh]) [2 ..< 2 + (lastRow sh - 1)]"

definition sheet_records :: "'n engine \<Rightarrow> 'n sheet \<Rightarrow> 'n row_record list" where
  "sheet_records E sh = map (row_to_object E (header_cells sh)) (data_rows sh)"

text \<open>The records of a table that may be missing.\<close>

definition table_records :: "'n engine \<Rightarrow> 'n sheet option \<Rightarrow> 'n row_record list" where
  "table_records E sheet =
     (case sheet of
        None \<Rightarrow> []
      | Some sh \<Rightarrow> if lastRow sh < 2 then [] else sheet_records E sh)"

text \<open>A sheet that has a row has a column: \<open>getLastColumn\<close> is \<open>0\<close> only on a sheet
  without content, where \<open>getLastRow\<close> is \<open>0\<close> too.\<close>

definition sheet_ok :: "'n sheet \<Rightarrow> bool" where
  "sheet_ok sh \<longleftrightarrow> (1 \<le> lastRow sh \<longrightarrow> 1 \<le> lastColumn sh)"

definition table_ok :: "'n sheet option \<Rightarrow> bool" where
  "table_ok sheet \<longleftrightarrow> (case sheet of None \<Rightarrow> True | Some sh \<Rightarrow> sheet_ok sh)"

definition is_fetch :: "event \<Rightarrow> bool" where
  "is_fetch ev \<longleftrightarrow> (case ev of UrlFetch _ _ \<Rightarrow> True | _ \<Rightarrow> False)"

text \<open>An order list in non-increasing order of resolved timestamps. An invalid
  date (NaN) is in no order with any other, as in the comparison of numbers.\<close>

definition time_ge :: "int option \<Rightarrow> int option \<Rightarrow> bool" where
  "time_ge a b \<longleftrightarrow> (case (a, b) of (Some x, Some y) \<Rightarrow> y \<le> x | _ \<Rightarrow> False)"

definition newest_first :: "'n engine \<Rightarrow> 'n row_record list \<Rightarrow> bool" where
  "newest_first E os \<longleftrightarrow> sorted_wrt time_ge (map (order_time E) os)"

section \<open>A concrete engine and store\<close>

text \<open>
  An instance of the engine on which the definitions evaluate: numbers are
  integers, \<open>JSON.parse\<close> and the date conversions are tables over the texts used
  below, \<open>JSON.stringify\<close> writes strings without escapes, and StringToNumber
  reads decimal digits (a string that is no decimal integer has no integer
  value, and is taken to \<open>0\<close>; the examples use none).
\<close>

definition digit_value :: "16 word \<Rightarrow> int option" where
  "digit_value c = (if 0x30 \<le> c \<and> c \<le> 0x39 then Some (uint c - 48) else None)"

fun decimal_value :: "int \<Rightarrow> jsstring \<Rightarrow> int option" where
  "decimal_value acc [] = Some acc"
| "decimal_value acc (c # cs) =
     (case digit_value c of None \<Rightarrow> None | Some d \<Rightarrow> decimal_value (10 * acc + d) cs)"

fun join_with :: "jsstring \<Rightarrow> jsstring list \<Rightarrow> jsstring" where
  "join_with sep [] = []"
| "join_with sep [x] = x"
| "join_with sep (x # y # ys) = x @ sep @ join_with sep (y # ys)"

definition quoted :: "jsstring \<Rightarrow> jsstring" where
  "quoted s = [0x22] @ s @ [0x22]"

fun demo_stringify :: "int jsval \<Rightarrow> jsstring" where
  "demo_stringify (Prim p) =
     (case p of
        Undefined \<Rightarrow> ascii ''null''
      | Null \<Rightarrow> ascii ''null''
      | Bool b \<Rightarrow> (if b then ascii ''true'' else ascii ''false'')
      | Num n \<Rightarrow> show_int n
      | Str s \<Rightarrow> quoted s)"
| "demo_stringify (Arr xs) =
     ascii ''['' @ join_with (ascii '','') (map demo_stringify xs) @ ascii '']''"
| "demo_stringify (Obj ps) =
     ascii ''{'' @
     join_with (ascii '','')
       (map (\<lambda>(k, v). quoted k @ ascii '':'' @ demo_stringify v)
          (filter (\<lambda>(k, v). case v of Prim Undefined \<Rightarrow> False | _ \<Rightarrow> True) ps)) @
     ascii ''}''"

definition request :: "string \<Rightarrow> (string \<times> int prim) list \<Rightarrow> int jsval" where
  "request action props =
     Obj ((ascii ''action'', Prim (Str (ascii action))) #
          map (\<lambda>(k, v). (ascii k, Prim v)) props)"

definition demo_json :: "(jsstring \<times> int jsval) list" where
  \<open>demo_json =
     [(ascii ''{"action":"getClientData","customerId":" 0501234567"}'',
       request ''getClientData'' [(''customerId'', Str (ascii '' 0501234567''))]),
      (ascii ''{"action":"getClientData","customerId":999}'',
       request ''getClientData'' [(''customerId'', Num 999)]),
      (ascii ''{"action":"getAllOrders"}'', request ''getAllOrders'' []),
      (ascii ''{"action":"getAdminDashboardData"}'', request ''getAdminDashboardData'' []),
      (ascii ''{"action":"updateOrderStatus","orderId":7}'',
       request ''updateOrderStatus'' [(''orderId'', Num 7)]),
      (ascii ''{"action":"sendNotificationToClient","clientId":123,"title":"Hi","message":"Ready"}'',
       request ''sendNotificationToClient''
         [(''clientId'', Num 123), (''title'', Str (ascii ''Hi'')),
          (''message'', Str (ascii ''Ready''))]),
      (ascii ''{"action":"getclientdata","customerId":"123"}'',
       request ''getclientdata'' [(''customerId'', Str (ascii ''123''))]),
      (ascii ''{"id":"n-1","recipients":3}'',
       Obj [(ascii ''id'', Prim (Str (ascii ''n-1''))), (ascii ''recipients'', Prim (Num 3))]),
      (ascii ''{"id":"","recipients":0}'',
       Obj [(ascii ''id'', Prim (Str [])), (ascii ''recipients'', Prim (Num 0))])]\<close>

definition demo_dates :: "(int \<times> jsstring) list" where
  "demo_dates =
     [(1704067200000, ascii ''2024-01-01T00:00:00.000Z''),
      (1704153600000, ascii ''2024-01-02T00:00:00.000Z''),
      (1704240000000, ascii ''2024-01-03T00:00:00.000Z'')]"

definition demo_engine :: "int engine" where
  "demo_engine =
     \<lparr>num_toString = show_int,
      num_gt_zero = (\<lambda>n. 0 < n),
      num_falsy = (\<lambda>n. n = 0),
      num_time_clip = (\<lambda>n. if \<bar>n\<bar> \<le> 8640000000000000 then Some n else None),
      string_to_number = (\<lambda>s. case decimal_value 0 (trim s) of Some n \<Rightarrow> n | None \<Rightarrow> 0),
      json_parse =
        (\<lambda>s. case map_of demo_json s of
               Some v \<Rightarrow> Inr v
             | None \<Rightarrow> Inl (JsError (ascii ''SyntaxError'') (ascii ''Unexpected token''))),
      json_stringify = demo_stringify,
      date_parse = map_of (map (\<lambda>(t, s). (s, t)) demo_dates),
      date_toISOString = (\<lambda>t. case map_of demo_dates t of Some s \<Rightarrow> s | None \<Rightarrow> []),
      date_toString = (\<lambda>t. case map_of demo_dates t of Some s \<Rightarrow> s | None \<Rightarrow> []),
      err_to_primitive =
        JsError (ascii ''TypeError'') (ascii ''Cannot convert object to primitive value''),
      err_read_nullish =
        (\<lambda>p k. JsError (ascii ''TypeError'') (ascii ''Cannot read properties of null''))\<rparr>"

text \<open>A sheet given by its rows.\<close>

definition grid_cell :: "'n cell list list \<Rightarrow> nat \<Rightarrow> nat \<Rightarrow> 'n cell" where
  "grid_cell g r c =
     (if 1 \<le> r \<and> r \<le> length g \<and> 1 \<le> c \<and> c \<le> length (g ! (r - 1))
      then g ! (r - 1) ! (c - 1) else CStr [])"

definition sheet_of :: "jsstring \<Rightarrow> 'n cell list list \<Rightarrow> 'n sheet" where
  "sheet_of name g =
     \<lparr>sheetName = name,
      lastRow = length g,
      lastColumn = (case g of [] \<Rightarrow> 0 | r # _ \<Rightarrow> length r),
      cellAt = grid_cell g\<rparr>"

definition demo_customers :: "int sheet" where
  "demo_customers =
     sheet_of SHEET_CUSTOMERS
       [[CStr KEY_CUSTOMER_NUMBER, CStr KEY_PHONE, CStr (ascii ''joined'')],
        [CNum 123, CStr (ascii ''0527654321''), CDate 1704067200000],
        [CStr (ascii ''456 ''), CStr (ascii ''0501234567''), CStr []],
        [CNum 789, CStr (ascii ''0501234567''), CStr []]]"

definition demo_rentals :: "int sheet" where
  "demo_rentals =
     sheet_of SHEET_CONTAINER_RENTALS
       [[CStr KEY_CUSTOMER_NUMBER, CStr (ascii ''size'')],
        [CNum 456, CStr (ascii ''8m'')],
        [CNum 123, CStr (ascii ''6m'')],
        [CStr (ascii '' 456''), CStr (ascii ''10m'')]]"

definition demo_materials :: "int sheet" where
  "demo_materials =
     sheet_of SHEET_MATERIAL_ORDERS
       [[CStr KEY_CUSTOMER_NUMBER, CStr KEY_RECEIVED_DATE],
        [CNum 456, CDate 1704067200000],
        [CNum 123, CDate 1704240000000]]"

definition demo_orders :: "int sheet" where
  "demo_orders =
     sheet_of SHEET_CONTAINER_ORDERS
       [[CStr KEY_CUSTOMER_NUMBER, CStr KEY_ORDER_DATE],
        [CNum 456, CDate 1704153600000]]"

definition demo_spreadsheet :: "int spreadsheet" where
  "demo_spreadsheet =
     map_of [(SHEET_CUSTOMERS, demo_customers), (SHEET_CONTAINER_RENTALS, demo_rentals),
             (SHEET_MATERIAL_ORDERS, demo_materials), (SHEET_CONTAINER_ORDERS, demo_orders)]"

definition demo_services :: "int services" where
  \<open>demo_services =
     \<lparr>openById = (\<lambda>i. Inr demo_spreadsheet),
      getProperty =
        map_of [(ascii ''ONE_SIGNAL_APP_ID'', ascii ''app-1''),
                (ascii ''ONE_SIGNAL_REST_API_KEY'', ascii ''key-1'')],
      fetch = (\<lambda>url options.
        Inr \<lparr>responseCode = 200, contentText = ascii ''{"id":"n-1","recipients":3}''\<rparr>),
      err_bad_range =
        JsError (ascii ''Exception'')
          (ascii ''The number of columns in the range must be at least 1.'')\<rparr>\<close>

section \<open>Notions used in the statements\<close>

text \<open>The key set of a record, and the strings of the header row of a sheet.\<close>

definition record_keys :: "'n row_record \<Rightarrow> jsstring set" where
  "record_keys r = fst ` set r"

definition header_keys :: "'n engine \<Rightarrow> 'n sheet \<Rightarrow> jsstring set" where
  "header_keys E sh = cell_key E ` set (header_cells sh)"

text \<open>A sheet with a column named \<open>__proto__\<close>, and a sheet with a header row only.\<close>

definition proto_sheet :: "int sheet" where
  "proto_sheet =
     sheet_of (ascii ''Sheet1'')
       [[CStr (ascii ''__proto__''), CStr (ascii ''name'')],
        [CStr (ascii ''x''), CStr (ascii ''Dana'')]]"

definition header_only :: "int sheet" where
  "header_only = sheet_of (ascii ''Sheet2'') [[CStr (ascii ''name'')]]"

text \<open>Spreadsheets that lack some of the sheets, and the error of a spreadsheet
  that cannot be opened.\<close>

definition no_sheets :: "int spreadsheet" where
  "no_sheets = (\<lambda>name. None)"

definition customers_only :: "int spreadsheet" where
  "customers_only = map_of [(SHEET_CUSTOMERS, demo_customers)]"

definition orders_only :: "int spreadsheet" where
  "orders_only = map_of [(SHEET_CONTAINER_ORDERS, demo_orders)]"

definition unreachable :: "js_error" where
  "unreachable = JsError (ascii ''Exception'') (ascii ''Service Spreadsheets failed'')"

text \<open>A spreadsheet in which one container order has no date.\<close>

definition gap_spreadsheet :: "int spreadsheet" where
  "gap_spreadsheet =
     map_of
       [(SHEET_MATERIAL_ORDERS,
         sheet_of SHEET_MATERIAL_ORDERS
           [[CStr KEY_CUSTOMER_NUMBER, CStr KEY_RECEIVED_DATE],
            [CNum 456, CDate 1704067200000]]),
        (SHEET_CONTAINER_ORDERS,
         sheet_of SHEET_CONTAINER_ORDERS
           [[CStr KEY_CUSTOMER_NUMBER, CStr KEY_RECEIVED_DATE],
            [CNum 123, CStr []],
            [CNum 789, CDate 1704153600000]])]"

section \<open>Basic facts\<close>

subsection \<open>String literals\<close>

lemma of_char_less_256: "(of_char c :: nat) < 256"
proof -
  have "(of_char c :: nat) mod 256 < 256" by simp
  then show ?thesis by (simp only: of_char_mod_256)
qed

lemma unat_of_char: "unat (of_char c :: 16 word) = of_char c"
proof -
  have "(of_char c :: 16 word) = of_nat (of_char c)" by (simp add: of_nat_of_char)
  moreover have "(of_char c :: nat) < 2 ^ 16"
    by (rule less_trans [OF of_char_less_256]) simp
  ultimately show ?thesis by (simp add: unat_of_nat)
qed

lemma of_char_word_eq_iff: "(of_char c :: 16 word) = of_char d \<longleftrightarrow> c = d"
proof
  assume "(of_char c :: 16 word) = of_char d"
  then have "unat (of_char c :: 16 word) = unat (of_char d :: 16 word)" by simp
  then show "c = d" by (simp add: unat_of_char)
qed simp

lemma ascii_eq_iff [simp]: "ascii a = ascii b \<longleftrightarrow> a = b"
  unfolding ascii_def
  by (rule inj_map_eq_map) (simp add: inj_on_def of_char_word_eq_iff)

lemma ascii_eq_Nil [simp]: "ascii a = [] \<longleftrightarrow> a = []"
  by (simp add: ascii_def)

subsection \<open>Sequencing\<close>

lemma seq_ret [simp]: "seq (ret x) f = f x"
  by (simp add: seq_def ret_def split: prod.splits)

lemma seq_throw [simp]: "seq (throw e) f = throw e"
  by (simp add: seq_def throw_def)

lemma seq_of_result_Inr [simp]: "seq (of_result (Inr x)) f = f x"
  by (simp add: seq_def of_result_def split: prod.splits)

lemma seq_of_result_Inl [simp]: "seq (of_result (Inl e)) f = throw e"
  by (simp add: seq_def of_result_def throw_def)

lemma seq_emit [simp]: "seq (emit ev) f = (ev # fst (f ()), snd (f ()))"
  by (simp add: seq_def emit_def split: prod.splits)

lemma seq_log [simp]: "seq (log msg) f = (Logged msg # fst (f ()), snd (f ()))"
  by (simp add: log_def)

lemma seq_pair_Inr [simp]: "seq (t, Inr x) f = (t @ fst (f x), snd (f x))"
  by (simp add: seq_def split: prod.splits)

lemma seq_pair_Inl [simp]: "seq (t, Inl e) f = (t, Inl e)"
  by (simp add: seq_def)

lemma fst_ret [simp]: "fst (ret x) = []"
  by (simp add: ret_def)

lemma snd_ret [simp]: "snd (ret x) = Inr x"
  by (simp add: ret_def)

lemma fst_throw [simp]: "fst (throw e) = []"
  by (simp add: throw_def)

lemma snd_throw [simp]: "snd (throw e) = Inl e"
  by (simp add: throw_def)

lemma snd_seq_Inr: "snd m = Inr x \<Longrightarrow> snd (seq m f) = snd (f x)"
  by (cases m) (simp add: seq_def split: prod.splits)

lemma snd_seq_Inl: "snd m = Inl e \<Longrightarrow> snd (seq m f) = Inl e"
  by (cases m) (simp add: seq_def)

lemma fst_seq: "fst (seq m f) = fst m @ (case snd m of Inl e \<Rightarrow> [] | Inr x \<Rightarrow> fst (f x))"
  by (cases m) (simp add: seq_def split: prod.splits sum.splits)

lemma snd_seq: "snd (seq m f) = (case snd m of Inl e \<Rightarrow> Inl e | Inr x \<Rightarrow> snd (f x))"
  by (cases m) (simp add: seq_def split: prod.splits sum.splits)

lemma fst_of_result [simp]: "fst (of_result r) = []"
  by (simp add: of_result_def)

lemma snd_of_result [simp]: "snd (of_result r) = r"
  by (simp add: of_result_def)

lemma fst_log [simp]: "fst (log msg) = [Logged msg]"
  by (simp add: log_def emit_def)

lemma snd_log [simp]: "snd (log msg) = Inr ()"
  by (simp add: log_def emit_def)

lemma try_catch_Inl [simp]: "try_catch (t, Inl e) h = (t @ fst (h e), snd (h e))"
  by (simp add: try_catch_def split: prod.splits)

lemma try_catch_Inr [simp]: "try_catch (t, Inr x) h = (t, Inr x)"
  by (simp add: try_catch_def)

lemma snd_try_catch:
  "snd (try_catch m h) = (case snd m of Inl err \<Rightarrow> snd (h err) | Inr x \<Rightarrow> Inr x)"
  by (cases m) (simp add: try_catch_def split: sum.splits prod.splits)

lemma fst_try_catch:
  "fst (try_catch m h) = fst m @ (case snd m of Inl err \<Rightarrow> fst (h err) | Inr x \<Rightarrow> [])"
  by (cases m) (simp add: try_catch_def split: sum.splits prod.splits)

subsection \<open>Reading a sheet\<close>

lemma getRange_getValues_ok:
  "1 \<le> r \<Longrightarrow> 1 \<le> c \<Longrightarrow> 1 \<le> nr \<Longrightarrow> 1 \<le> nc \<Longrightarrow>
   getRange_getValues S sh r c nr nc =
     ([ReadRange (sheetName sh) r c nr nc],
      Inr (map (\<lambda>i. map (\<lambda>j. cellAt sh i j) [c ..< c + nc]) [r ..< r + nr]))"
  by (simp add: getRange_getValues_def)

lemma getSheetData_None: "getSheetData E S None = ([], Inr [])"
  by (simp add: getSheetData_def ret_def)

lemma getSheetData_short: "lastRow sh < 2 \<Longrightarrow> getSheetData E S (Some sh) = ([], Inr [])"
  by (simp add: getSheetData_def ret_def)

lemma getSheetData_rows:
  assumes "2 \<le> lastRow sh" and "1 \<le> lastColumn sh"
  shows "getSheetData E S (Some sh) =
           ([ReadRange (sheetName sh) 1 1 1 (lastColumn sh),
             ReadRange (sheetName sh) 2 1 (lastRow sh - 1) (lastColumn sh)],
            Inr (sheet_records E sh))"
proof -
  have h: "getRange_getValues S sh 1 1 1 (lastColumn sh) =
             ([ReadRange (sheetName sh) 1 1 1 (lastColumn sh)], Inr [header_cells sh])"
    using assms by (simp add: getRange_getValues_ok header_cells_def)
  have d: "getRange_getValues S sh 2 1 (lastRow sh - 1) (lastColumn sh) =
             ([ReadRange (sheetName sh) 2 1 (lastRow sh - 1) (lastColumn sh)], Inr (data_rows sh))"
    using assms by (simp add: getRange_getValues_ok data_rows_def)
  from assms have n: "\<not> lastRow sh < 2" by simp
  have "getSheetData E S (Some sh) =
          seq (getRange_getValues S sh 1 1 1 (lastColumn sh)) (\<lambda>hv.
          seq (getRange_getValues S sh 2 1 (lastRow sh - 1) (lastColumn sh)) (\<lambda>data.
          case hv of
            headers # _ \<Rightarrow> ret (map (row_to_object E headers) data)
          | [] \<Rightarrow>
              (case data of
                 [] \<Rightarrow> ret []
               | _ \<Rightarrow> throw (err_read_nullish E Undefined (ascii ''forEach'')))))"
    using n by (simp only: getSheetData_def option.case if_False)
  also have "\<dots> = ([ReadRange (sheetName sh) 1 1 1 (lastColumn sh),
             ReadRange (sheetName sh) 2 1 (lastRow sh - 1) (lastColumn sh)],
            Inr (sheet_records E sh))"
    by (simp only: h d seq_def prod.case sum.case list.case ret_def sheet_records_def
        append.simps)
  finally show ?thesis .
qed

lemma getSheetData_table:
  "table_ok sheet \<Longrightarrow> snd (getSheetData E S sheet) = Inr (table_records E sheet)"
proof (cases sheet)
  case None
  then show ?thesis by (simp add: getSheetData_None table_records_def)
next
  case (Some sh)
  assume ok: "table_ok sheet"
  show ?thesis
  proof (cases "lastRow sh < 2")
    case True
    with Some show ?thesis by (simp add: getSheetData_short table_records_def)
  next
    case False
    with ok Some have "2 \<le> lastRow sh" and "1 \<le> lastColumn sh"
      by (simp_all add: table_ok_def sheet_ok_def)
    with Some False show ?thesis by (simp add: getSheetData_rows table_records_def)
  qed
qed

lemma length_data_rows: "length (data_rows sh) = lastRow sh - 1"
  by (simp only: data_rows_def length_map length_upt add_diff_cancel_left')

lemma keys_set_field:
  "fst ` set (set_field r k v) =
     (if k = ascii ''__proto__'' then fst ` set r else insert k (fst ` set r))"
  by (simp add: set_field_def dom_update)

lemma keys_fill_row:
  "fst ` set (fill_row E hs i row obj) =
     fst ` set obj \<union> (cell_key E ` set hs - {ascii ''__proto__''})"
proof (induction hs arbitrary: i obj)
  case Nil
  then show ?case by simp
next
  case (Cons h hs)
  show ?case
    by (simp only: fill_row.simps Cons.IH keys_set_field) auto
qed

lemma keys_row_to_object:
  "record_keys (row_to_object E hs row) = cell_key E ` set hs - {ascii ''__proto__''}"
  by (simp add: row_to_object_def keys_fill_row record_keys_def)

lemma table_records_None [simp]: "table_records E None = []"
  by (simp add: table_records_def)

lemma table_ok_None [simp]: "table_ok None"
  by (simp add: table_ok_def)

subsection \<open>The query handlers\<close>

lemma snd_open_spreadsheet [simp]: "snd (open_spreadsheet S i) = openById S i"
  by (simp add: open_spreadsheet_def of_result_def)

lemma snd_getSheetByName [simp]: "snd (getSheetByName ss name) = Inr (ss name)"
  by (simp add: getSheetByName_def)

lemma handleGetAllOrders_result:
  assumes "openById S SPREADSHEET_ID = Inr ss"
    and "table_ok (ss SHEET_MATERIAL_ORDERS)" and "table_ok (ss SHEET_CONTAINER_ORDERS)"
  shows "snd (handleGetAllOrders E S) =
           Inr (createJsonResponse E
                  (all_orders (merged_orders E (table_records E (ss SHEET_MATERIAL_ORDERS))
                                 (table_records E (ss SHEET_CONTAINER_ORDERS)))))"
proof -
  have o: "snd (open_spreadsheet S SPREADSHEET_ID) = Inr ss"
    using assms(1) by simp
  show ?thesis
    unfolding handleGetAllOrders_def
    by (simp add: snd_seq_Inr [OF o] snd_seq_Inr [OF snd_getSheetByName]
        snd_seq_Inr [OF getSheetData_table [OF assms(2)]]
        snd_seq_Inr [OF getSheetData_table [OF assms(3)]])
qed

lemma handleGetAllOrders_raises:
  "openById S SPREADSHEET_ID = Inl err \<Longrightarrow> snd (handleGetAllOrders E S) = Inl err"
  by (simp add: handleGetAllOrders_def snd_seq_Inl)

lemma handleGetClientData_result:
  assumes "openById S SPREADSHEET_ID = Inr ss"
    and "get_prop E payload (ascii ''customerId'') = Inr c"
    and "to_string E c = Inr s"
    and "table_ok (ss SHEET_CUSTOMERS)"
    and "table_ok (ss SHEET_CONTAINER_RENTALS)"
    and "table_ok (ss SHEET_MATERIAL_ORDERS)"
  shows "snd (handleGetClientData E S payload) =
           Inr (createJsonResponse E
             (case find (matches_customer E (trim s)) (table_records E (ss SHEET_CUSTOMERS)) of
                None \<Rightarrow> client_not_found
              | Some user \<Rightarrow>
                  client_data user
                    (filter (\<lambda>row. trimmed_field E row KEY_CUSTOMER_NUMBER =
                                   trimmed_field E user KEY_CUSTOMER_NUMBER)
                       (table_records E (ss SHEET_CONTAINER_RENTALS)))
                    (filter (\<lambda>row. trimmed_field E row KEY_CUSTOMER_NUMBER =
                                   trimmed_field E user KEY_CUSTOMER_NUMBER)
                       (table_records E (ss SHEET_MATERIAL_ORDERS)))))"
proof -
  have o: "snd (open_spreadsheet S SPREADSHEET_ID) = Inr ss"
    using assms(1) by simp
  show ?thesis
    unfolding handleGetClientData_def
    by (simp add: snd_seq_Inr [OF o] assms(2,3) snd_seq_Inr [OF snd_getSheetByName]
        snd_seq_Inr [OF getSheetData_table [OF assms(4)]]
        snd_seq_Inr [OF getSheetData_table [OF assms(5)]]
        snd_seq_Inr [OF getSheetData_table [OF assms(6)]] Let_def split: option.splits)
qed

lemma lookup_without_match:
  assumes "openById S SPREADSHEET_ID = Inr ss"
    and "get_prop E payload (ascii ''customerId'') = Inr c"
    and "to_string E c = Inr s"
    and "table_ok (ss SHEET_CUSTOMERS)"
    and "find (matches_customer E (trim s)) (table_records E (ss SHEET_CUSTOMERS)) = None"
  shows "snd (handleGetClientData E S payload) = Inr (createJsonResponse E client_not_found)"
proof -
  have o: "snd (open_spreadsheet S SPREADSHEET_ID) = Inr ss"
    using assms(1) by simp
  show ?thesis
    unfolding handleGetClientData_def
    by (simp add: snd_seq_Inr [OF o] assms(2,3,5) snd_seq_Inr [OF snd_getSheetByName]
        snd_seq_Inr [OF getSheetData_table [OF assms(4)]] Let_def)
qed

subsection \<open>Sorting\<close>

lemma mset_sort_insert [simp]: "mset (sort_insert cmp x ys) = add_mset x (mset ys)"
  by (induction ys) simp_all

lemma mset_js_sort [simp]: "mset (js_sort cmp xs) = mset xs"
  by (induction xs) (simp_all add: js_sort_def)

lemma set_js_sort [simp]: "set (js_sort cmp xs) = set xs"
  by (metis mset_js_sort set_mset_mset)

lemma length_js_sort [simp]: "length (js_sort cmp xs) = length xs"
  by (metis mset_js_sort size_mset)

lemma sorted_sort_insert:
  fixes k :: "'a \<Rightarrow> int"
  assumes "\<And>y. y \<in> set ys \<Longrightarrow> cmp_le cmp x y \<longleftrightarrow> k y \<le> k x"
    and "sorted_wrt (\<lambda>a b. k b \<le> k a) ys"
  shows "sorted_wrt (\<lambda>a b. k b \<le> k a) (sort_insert cmp x ys)"
  using assms
proof (induction ys)
  case Nil
  then show ?case by simp
next
  case (Cons y ys)
  show ?case
  proof (cases "cmp_le cmp x y")
    case True
    with Cons.prems have "k y \<le> k x" by simp
    with True Cons.prems(2) show ?thesis by fastforce
  next
    case False
    with Cons.prems have "k x \<le> k y" by fastforce
    moreover have "sorted_wrt (\<lambda>a b. k b \<le> k a) (sort_insert cmp x ys)"
      using Cons by simp
    moreover have "set (sort_insert cmp x ys) = insert x (set ys)"
      by (metis mset_sort_insert set_mset_mset set_mset_add_mset_insert)
    ultimately show ?thesis
      using False Cons.prems(2) by auto
  qed
qed

lemma sorted_js_sort:
  fixes k :: "'a \<Rightarrow> int"
  assumes "\<And>x y. x \<in> set xs \<Longrightarrow> y \<in> set xs \<Longrightarrow> cmp_le cmp x y \<longleftrightarrow> k y \<le> k x"
  shows "sorted_wrt (\<lambda>a b. k b \<le> k a) (js_sort cmp xs)"
  using assms
proof (induction xs)
  case Nil
  then show ?case by (simp add: js_sort_def)
next
  case (Cons x xs)
  have "sorted_wrt (\<lambda>a b. k b \<le> k a) (js_sort cmp xs)"
    using Cons by simp
  moreover have "\<And>y. y \<in> set (js_sort cmp xs) \<Longrightarrow> cmp_le cmp x y \<longleftrightarrow> k y \<le> k x"
    using Cons.prems by simp
  ultimately have "sorted_wrt (\<lambda>a b. k b \<le> k a) (sort_insert cmp x (js_sort cmp xs))"
    by (rule sorted_sort_insert [rotated])
  then show ?case by (simp add: js_sort_def)
qed

subsection \<open>The merged orders\<close>

lemma get_field_with_orderType:
  "k \<noteq> ascii ''orderType'' \<Longrightarrow> get_field (with_orderType t r) k = get_field r k"
  by (simp add: get_field_def with_orderType_def update_conv)

lemma get_orderType [simp]: "get_field (with_orderType t r) (ascii ''orderType'') = Str t"
  by (simp add: get_field_def with_orderType_def update_conv)

lemma order_time_with_orderType [simp]:
  "order_time E (with_orderType t r) = order_time E r"
proof -
  have "KEY_RECEIVED_DATE \<noteq> ascii ''orderType''" "KEY_ORDER_DATE \<noteq> ascii ''orderType''"
    by (simp_all add: KEY_RECEIVED_DATE_def KEY_ORDER_DATE_def ascii_def)
  then show ?thesis
    by (simp add: order_time_def order_date_field_def get_field_with_orderType)
qed

lemma cmp_le_compare_orders:
  assumes "order_time E x = Some tx" and "order_time E y = Some ty"
  shows "cmp_le (compare_orders E) x y \<longleftrightarrow> ty \<le> tx"
  using assms by (simp add: cmp_le_def compare_orders_def)

lemma newest_first_js_sort:
  assumes "list_all (\<lambda>r. order_time E r \<noteq> None) xs"
  shows "newest_first E (js_sort (compare_orders E) xs)"
proof -
  let ?k = "\<lambda>r. the (order_time E r)"
  have v: "\<And>x. x \<in> set xs \<Longrightarrow> order_time E x = Some (?k x)"
    using assms by (auto simp: list_all_iff)
  have "sorted_wrt (\<lambda>a b. ?k b \<le> ?k a) (js_sort (compare_orders E) xs)"
    by (rule sorted_js_sort) (simp add: cmp_le_compare_orders [OF v v])
  then have "sorted_wrt (\<lambda>a b. time_ge (order_time E a) (order_time E b))
               (js_sort (compare_orders E) xs)"
  proof (rule sorted_wrt_mono_rel [rotated])
    fix a b
    assume "a \<in> set (js_sort (compare_orders E) xs)" "b \<in> set (js_sort (compare_orders E) xs)"
      and "?k b \<le> ?k a"
    then show "time_ge (order_time E a) (order_time E b)"
      using v [of a] v [of b] by (auto simp: time_ge_def split: option.splits)
  qed
  then show ?thesis
    by (simp add: newest_first_def sorted_wrt_map)
qed

lemma merged_orders_facts:
  "length (merged_orders E ms cs) = length ms + length cs"
  "mset (merged_orders E ms cs) =
     mset (map (with_orderType (ascii ''materials'')) ms) +
     mset (map (with_orderType (ascii ''container'')) cs)"
  by (simp_all add: merged_orders_def)

lemma merged_orders_sorted:
  assumes "list_all (\<lambda>r. order_time E r \<noteq> None) (ms @ cs)"
  shows "newest_first E (merged_orders E ms cs)"
  unfolding merged_orders_def
  by (rule newest_first_js_sort) (use assms in \<open>auto simp: list_all_iff\<close>)

lemma merged_orders_Nil [simp]: "merged_orders E [] [] = []"
  by (simp add: merged_orders_def js_sort_def)

subsection \<open>The notification handler\<close>

lemma read_property_eq [simp]: "read_property S k = ([GetProperty k], Inr (getProperty S k))"
  by (simp add: read_property_def)

lemma url_fetch_eq [simp]: "url_fetch S url options = ([UrlFetch url options], fetch S url options)"
  by (simp add: url_fetch_def of_result_def throw_def split: sum.splits)

lemma handleSendNotification_missing:
  assumes "property_missing (getProperty S (ascii ''ONE_SIGNAL_APP_ID'')) \<or>
           property_missing (getProperty S (ascii ''ONE_SIGNAL_REST_API_KEY''))"
  shows "handleSendNotification E S payload =
           ([Logged (ascii ''Attempting to send notification. Received payload: '' @
                     json_stringify E payload),
             GetProperty (ascii ''ONE_SIGNAL_APP_ID''),
             GetProperty (ascii ''ONE_SIGNAL_REST_API_KEY''),
             Logged (ascii ''ERROR in handleSendNotification: '' @ credentials_missing_msg)],
            Inr (createJsonResponse E (envelope ''error'' credentials_missing_msg)))"
  using assms
  by (auto simp: handleSendNotification_def property_missing_def Let_def split: option.splits)

lemma handleSendNotification_present:
  assumes "getProperty S (ascii ''ONE_SIGNAL_APP_ID'') = Some app" and "app \<noteq> []"
    and "getProperty S (ascii ''ONE_SIGNAL_REST_API_KEY'') = Some key" and "key \<noteq> []"
    and "get_prop E payload (ascii ''clientId'') = Inr cid"
    and "get_prop E payload (ascii ''title'') = Inr title"
    and "get_prop E payload (ascii ''message'') = Inr msg"
    and "to_string E cid = Inr client"
    and "notification = build_notification app title msg client"
    and "options = build_options E key notification"
  shows "handleSendNotification E S payload =
           (Logged (ascii ''Attempting to send notification. Received payload: '' @
                     json_stringify E payload) #
            GetProperty (ascii ''ONE_SIGNAL_APP_ID'') #
            GetProperty (ascii ''ONE_SIGNAL_REST_API_KEY'') #
            fst (try_catch (send_and_classify E S notification options client) (\<lambda>err.
                   seq (log (ascii ''Fatal Error: '' @ script_error_msg err)) (\<lambda>_.
                   ret (createJsonResponse E (envelope ''error'' (script_error_msg err)))))),
            snd (try_catch (send_and_classify E S notification options client) (\<lambda>err.
                   seq (log (ascii ''Fatal Error: '' @ script_error_msg err)) (\<lambda>_.
                   ret (createJsonResponse E (envelope ''error'' (script_error_msg err)))))))"
  using assms by (simp add: handleSendNotification_def Let_def)

lemma send_and_classify_fetches:
  "filter is_fetch (fst (send_and_classify E S notification options client)) =
     [UrlFetch ONESIGNAL_URL options]"
  by (simp add: send_and_classify_def Let_def is_fetch_def fst_seq snd_seq
      split: sum.splits)

lemma send_and_classify_snd:
  "snd (send_and_classify E S notification options client) =
     (case fetch S ONESIGNAL_URL options of
        Inl err \<Rightarrow> Inl err
      | Inr r \<Rightarrow>
          if responseCode r = 200 then
            (case json_parse E (contentText r) of
               Inl err \<Rightarrow> Inl err
             | Inr pb \<Rightarrow>
                 (case get_prop E pb (ascii ''recipients'') of
                    Inl err \<Rightarrow> Inl err
                  | Inr rv \<Rightarrow>
                      (case js_gt_zero E rv of
                         Inl err \<Rightarrow> Inl err
                       | Inr positive \<Rightarrow>
                           if positive then
                             (case to_string E rv of
                                Inl err \<Rightarrow> Inl err
                              | Inr cnt \<Rightarrow>
                                  Inr (createJsonResponse E (envelope ''success'' (sent_msg cnt))))
                           else Inr (createJsonResponse E
                                       (envelope ''warning'' (no_recipients_msg client))))))
          else Inr (createJsonResponse E
                      (envelope ''error'' (failed_status_msg (responseCode r) (contentText r)))))"
  by (simp add: send_and_classify_def Let_def snd_seq split: sum.splits)

lemma handleSendNotification_fetches:
  assumes "getProperty S (ascii ''ONE_SIGNAL_APP_ID'') = Some app" and "app \<noteq> []"
    and "getProperty S (ascii ''ONE_SIGNAL_REST_API_KEY'') = Some key" and "key \<noteq> []"
    and "get_prop E payload (ascii ''clientId'') = Inr cid"
    and "get_prop E payload (ascii ''title'') = Inr title"
    and "get_prop E payload (ascii ''message'') = Inr msg"
    and "to_string E cid = Inr client"
    and "options = build_options E key (build_notification app title msg client)"
  shows "filter is_fetch (fst (handleSendNotification E S payload)) =
           [UrlFetch ONESIGNAL_URL options]"
  by (simp add: handleSendNotification_present [OF assms(1-8) refl assms(9)]
      fst_try_catch send_and_classify_fetches is_fetch_def split: sum.splits)

subsection \<open>The router\<close>

lemma doPost_try_action:
  assumes "postData e = Some body" and "json_parse E body = Inr payload"
    and "get_prop E payload (ascii ''action'') = Inr (Prim (Str a))"
  shows "doPost_try E S e =
           (Logged (received_msg E a payload) # fst (dispatch E S payload (Prim (Str a)) a),
            snd (dispatch E S payload (Prim (Str a)) a))"
  using assms by (simp add: doPost_try_def prim_to_string_def)

lemma dispatch_unknown:
  assumes "a \<noteq> ascii ''getClientData''" and "a \<noteq> ascii ''getAdminDashboardData''"
    and "a \<noteq> ascii ''getAllOrders''" and "a \<noteq> ascii ''updateOrderStatus''"
    and "a \<noteq> ascii ''sendNotificationToClient''"
  shows "dispatch E S payload (Prim (Str a)) a =
           ([Logged (ascii ''Error: Unknown action requested: '' @ a)],
            Inr (createJsonResponse E (envelope ''error'' (unknown_action_msg a))))"
  using assms by (simp add: dispatch_def Let_def)

lemma dispatch_getClientData:
  "dispatch E S payload (Prim (Str (ascii ''getClientData''))) a = handleGetClientData E S payload"
  by (simp add: dispatch_def Let_def)

lemma dispatch_getAllOrders:
  "dispatch E S payload (Prim (Str (ascii ''getAllOrders''))) a = handleGetAllOrders E S"
  "dispatch E S payload (Prim (Str (ascii ''getAdminDashboardData''))) a = handleGetAllOrders E S"
  by (simp_all add: dispatch_def Let_def)

lemma dispatch_updateOrderStatus:
  "dispatch E S payload (Prim (Str (ascii ''updateOrderStatus''))) a =
     handleUpdateOrderStatus E payload"
  by (simp add: dispatch_def Let_def)

lemma dispatch_sendNotification:
  "dispatch E S payload (Prim (Str (ascii ''sendNotificationToClient''))) a =
     handleSendNotification E S payload"
  by (simp add: dispatch_def Let_def)

lemma snd_doPost:
  "snd (doPost E S e) =
     (case snd (doPost_try E S e) of
        Inr response \<Rightarrow> response
      | Inl err \<Rightarrow> createJsonResponse E (envelope ''error'' (server_error_msg err)))"
  by (simp add: doPost_def split: prod.splits sum.splits)

lemma snd_doPost_try_action:
  assumes "postData e = Some body" and "json_parse E body = Inr payload"
    and "get_prop E payload (ascii ''action'') = Inr (Prim (Str a))"
  shows "snd (doPost_try E S e) = snd (dispatch E S payload (Prim (Str a)) a)"
  by (simp add: doPost_try_action [OF assms])

lemma doPost_getClientData:
  assumes "postData e = Some body" and "json_parse E body = Inr payload"
    and "get_prop E payload (ascii ''action'') = Inr (Prim (Str (ascii ''getClientData'')))"
    and "snd (handleGetClientData E S payload) = Inr response"
  shows "snd (doPost E S e) = response"
  using assms(4)
  by (simp add: snd_doPost snd_doPost_try_action [OF assms(1,2,3)] dispatch_getClientData)

lemma doPost_getAllOrders:
  assumes "postData e = Some body" and "json_parse E body = Inr payload"
    and "get_prop E payload (ascii ''action'') = Inr (Prim (Str a))"
    and "a = ascii ''getAllOrders'' \<or> a = ascii ''getAdminDashboardData''"
    and "snd (handleGetAllOrders E S) = Inr response"
  shows "snd (doPost E S e) = response"
  using assms(4,5)
  by (auto simp: snd_doPost snd_doPost_try_action [OF assms(1,2,3)] dispatch_getAllOrders)

lemma doPost_sendNotification:
  assumes "postData e = Some body" and "json_parse E body = Inr payload"
    and "get_prop E payload (ascii ''action'') = Inr (Prim (Str (ascii ''sendNotificationToClient'')))"
  shows "doPost_try E S e =
           (Logged (received_msg E (ascii ''sendNotificationToClient'') payload) #
              fst (handleSendNotification E S payload),
            snd (handleSendNotification E S payload))"
  by (simp add: doPost_try_action [OF assms] dispatch_sendNotification)

lemma filter_fetch_doPost:
  "filter is_fetch (fst (doPost E S e)) = filter is_fetch (fst (doPost_try E S e))"
  by (simp add: doPost_def is_fetch_def split: prod.splits sum.splits)

lemma doPost_sendNotification_snd:
  assumes "postData e = Some body" and "json_parse E body = Inr payload"
    and "get_prop E payload (ascii ''action'') = Inr (Prim (Str (ascii ''sendNotificationToClient'')))"
    and "getProperty S (ascii ''ONE_SIGNAL_APP_ID'') = Some app" and "app \<noteq> []"
    and "getProperty S (ascii ''ONE_SIGNAL_REST_API_KEY'') = Some key" and "key \<noteq> []"
    and "get_prop E payload (ascii ''clientId'') = Inr cid"
    and "get_prop E payload (ascii ''title'') = Inr title"
    and "get_prop E payload (ascii ''message'') = Inr msg"
    and "to_string E cid = Inr client"
    and "options = build_options E key (build_notification app title msg client)"
  shows "Inr (snd (doPost E S e)) =
           (case snd (send_and_classify E S (build_notification app title msg client) options client) of
              Inl err \<Rightarrow> Inr (createJsonResponse E (envelope ''error'' (script_error_msg err)))
            | Inr x \<Rightarrow> Inr x)"
  by (simp add: snd_doPost doPost_sendNotification [OF assms(1,2,3)]
      handleSendNotification_present [OF assms(4-11) refl assms(12)] snd_try_catch
      split: sum.splits)

subsection \<open>Evaluation on the concrete store\<close>

lemmas demo_request_eval = demo_engine_def demo_json_def get_prop_def request_def

lemmas sheet_names =
  SHEET_CUSTOMERS_def SHEET_CONTAINER_RENTALS_def SHEET_MATERIAL_ORDERS_def
  SHEET_CONTAINER_ORDERS_def

lemmas column_names =
  KEY_CUSTOMER_NUMBER_def KEY_PHONE_def KEY_RECEIVED_DATE_def KEY_ORDER_DATE_def

lemmas sheet_eval =
  getSheetData_def getRange_getValues_def sheet_of_def grid_cell_def
  row_to_object_def set_field_def cell_key_def cell_value_def header_cells_def data_rows_def
  upt_rec

lemmas record_eval =
  table_records_def sheet_records_def data_rows_def header_cells_def sheet_of_def grid_cell_def
  row_to_object_def set_field_def cell_key_def cell_value_def upt_rec

lemmas string_eval = prim_to_string_def show_int_def show_nat.simps digit_unit_def trim_def is_js_space_def

lemmas order_eval =
  merged_orders_def js_sort_def cmp_le_def compare_orders_def order_time_def order_date_field_def
  new_Date_def prim_falsy_def get_field_def with_orderType_def

lemma demo_customer_records:
  "table_records demo_engine (demo_spreadsheet SHEET_CUSTOMERS) =
     [[(KEY_CUSTOMER_NUMBER, Num 123), (KEY_PHONE, Str (ascii ''0527654321'')),
       (ascii ''joined'', Str (ascii ''2024-01-01T00:00:00.000Z''))],
      [(KEY_CUSTOMER_NUMBER, Str (ascii ''456 '')), (KEY_PHONE, Str (ascii ''0501234567'')),
       (ascii ''joined'', Str [])],
      [(KEY_CUSTOMER_NUMBER, Num 789), (KEY_PHONE, Str (ascii ''0501234567'')),
       (ascii ''joined'', Str [])]]"
  by (simp add: demo_spreadsheet_def demo_customers_def record_eval demo_engine_def
      demo_dates_def column_names ascii_def)

lemma demo_rental_records:
  "table_records demo_engine (demo_spreadsheet SHEET_CONTAINER_RENTALS) =
     [[(KEY_CUSTOMER_NUMBER, Num 456), (ascii ''size'', Str (ascii ''8m''))],
      [(KEY_CUSTOMER_NUMBER, Num 123), (ascii ''size'', Str (ascii ''6m''))],
      [(KEY_CUSTOMER_NUMBER, Str (ascii '' 456'')), (ascii ''size'', Str (ascii ''10m''))]]"
  by (simp add: demo_spreadsheet_def demo_rentals_def record_eval demo_engine_def
      sheet_names column_names ascii_def)

lemma demo_material_records:
  "table_records demo_engine (demo_spreadsheet SHEET_MATERIAL_ORDERS) =
     [[(KEY_CUSTOMER_NUMBER, Num 456),
       (KEY_RECEIVED_DATE, Str (ascii ''2024-01-01T00:00:00.000Z''))],
      [(KEY_CUSTOMER_NUMBER, Num 123),
       (KEY_RECEIVED_DATE, Str (ascii ''2024-01-03T00:00:00.000Z''))]]"
  by (simp add: demo_spreadsheet_def demo_materials_def record_eval demo_engine_def
      demo_dates_def sheet_names column_names ascii_def)

lemma demo_order_records:
  "table_records demo_engine (demo_spreadsheet SHEET_CONTAINER_ORDERS) =
     [[(KEY_CUSTOMER_NUMBER, Num 456),
       (KEY_ORDER_DATE, Str (ascii ''2024-01-02T00:00:00.000Z''))]]"
  by (simp add: demo_spreadsheet_def demo_orders_def record_eval demo_engine_def
      demo_dates_def sheet_names column_names ascii_def)

lemma demo_tables_ok:
  "table_ok (demo_spreadsheet SHEET_CUSTOMERS)"
  "table_ok (demo_spreadsheet SHEET_CONTAINER_RENTALS)"
  "table_ok (demo_spreadsheet SHEET_MATERIAL_ORDERS)"
  "table_ok (demo_spreadsheet SHEET_CONTAINER_ORDERS)"
  by (simp_all add: demo_spreadsheet_def table_ok_def sheet_ok_def demo_customers_def
      demo_rentals_def demo_materials_def demo_orders_def sheet_of_def sheet_names)

lemma demo_merged_orders:
  "merged_orders demo_engine (table_records demo_engine (demo_spreadsheet SHEET_MATERIAL_ORDERS))
     (table_records demo_engine (demo_spreadsheet SHEET_CONTAINER_ORDERS)) =
   [[(KEY_CUSTOMER_NUMBER, Num 123),
     (KEY_RECEIVED_DATE, Str (ascii ''2024-01-03T00:00:00.000Z'')),
     (ascii ''orderType'', Str (ascii ''materials''))],
    [(KEY_CUSTOMER_NUMBER, Num 456),
     (KEY_ORDER_DATE, Str (ascii ''2024-01-02T00:00:00.000Z'')),
     (ascii ''orderType'', Str (ascii ''container''))],
    [(KEY_CUSTOMER_NUMBER, Num 456),
     (KEY_RECEIVED_DATE, Str (ascii ''2024-01-01T00:00:00.000Z'')),
     (ascii ''orderType'', Str (ascii ''materials''))]]"
  unfolding demo_material_records demo_order_records
  by (simp add: order_eval demo_engine_def demo_dates_def column_names ascii_def)

section \<open>The router: unknown actions and exceptions\<close>

text \<open>
  C1. A request whose body parses and whose \<open>action\<close> is a string other than the
  five action names, compared exactly, reaches no handler: \<open>doPost\<close> writes its
  three log lines, calls no service, and answers
  \<open>{status: "error", message: "Unknown action: " + action}\<close> with the action as
  it was sent.
\<close>

theorem doPost_unknown_action:
  assumes "postData e = Some body"
    and "json_parse E body = Inr payload"
    and "get_prop E payload (ascii ''action'') = Inr (Prim (Str a))"
    and "a \<noteq> ascii ''getClientData''"
    and "a \<noteq> ascii ''getAdminDashboardData''"
    and "a \<noteq> ascii ''getAllOrders''"
    and "a \<noteq> ascii ''updateOrderStatus''"
    and "a \<noteq> ascii ''sendNotificationToClient''"
  shows "doPost E S e =
           ([Logged started_msg,
             Logged (received_msg E a payload),
             Logged (ascii ''Error: Unknown action requested: '' @ a)],
            createJsonResponse E (envelope ''error'' (ascii ''Unknown action: '' @ a)))"
  by (simp add: doPost_def doPost_try_action [OF assms(1,2,3)]
      dispatch_unknown [OF assms(4-8)] unknown_action_msg_def)

text \<open>The action name in another letter case is not recognised.\<close>

theorem doPost_unknown_action_witness:
  \<open>postData \<lparr>postData = Some (ascii ''{"action":"getclientdata","customerId":"123"}'')\<rparr> =
      Some (ascii ''{"action":"getclientdata","customerId":"123"}'') \<and>
   json_parse demo_engine (ascii ''{"action":"getclientdata","customerId":"123"}'') =
      Inr (request ''getclientdata'' [(''customerId'', Str (ascii ''123''))]) \<and>
   get_prop demo_engine (request ''getclientdata'' [(''customerId'', Str (ascii ''123''))])
      (ascii ''action'') = Inr (Prim (Str (ascii ''getclientdata''))) \<and>
   snd (doPost demo_engine demo_services
      \<lparr>postData = Some (ascii ''{"action":"getclientdata","customerId":"123"}'')\<rparr>) =
     createJsonResponse demo_engine
       (envelope ''error'' (ascii ''Unknown action: getclientdata''))\<close>
proof -
  have p: \<open>json_parse demo_engine (ascii ''{"action":"getclientdata","customerId":"123"}'') =
      Inr (request ''getclientdata'' [(''customerId'', Str (ascii ''123''))])\<close>
    by (simp add: demo_engine_def demo_json_def)
  have g: "get_prop demo_engine (request ''getclientdata'' [(''customerId'', Str (ascii ''123''))])
      (ascii ''action'') = Inr (Prim (Str (ascii ''getclientdata'')))"
    by (simp add: get_prop_def request_def)
  show ?thesis
    using doPost_unknown_action [of _ _ demo_engine, OF _ p g, of _ demo_services] p g
    by (simp add: ascii_def)
qed

text \<open>
  C2. A body that is not valid JSON makes \<open>JSON.parse\<close> raise; \<open>doPost\<close> catches
  it, logs it, calls no handler and returns an envelope with status \<open>error\<close>
  whose message ends with the description of the exception. The same holds when
  the dispatched handler raises, and for any exception of the \<open>try\<close> block; when
  the block raises nothing its response is returned. So \<open>doPost\<close> returns a
  response on every request and no exception leaves it. A response is a
  function of the request and of the services, which the script only reads and
  never updates, so a failed request leaves nothing behind for the next one.
\<close>

theorem doPost_catches:
  "(postData e = Some body \<and> json_parse E body = Inl err \<longrightarrow>
      doPost E S e =
        ([Logged started_msg,
          Logged (ascii ''Critical Error in doPost: '' @ error_toString err)],
         createJsonResponse E
           (envelope ''error''
              (ascii ''Invalid request or server error: '' @ error_toString err)))) \<and>
   (postData e = Some body \<and> json_parse E body = Inr payload \<and>
    get_prop E payload (ascii ''action'') = Inr (Prim (Str a)) \<and>
    snd (dispatch E S payload (Prim (Str a)) a) = Inl err \<longrightarrow>
      snd (doPost E S e) =
        createJsonResponse E
          (envelope ''error''
             (ascii ''Invalid request or server error: '' @ error_toString err))) \<and>
   (snd (doPost_try E S e) = Inl err \<longrightarrow>
      snd (doPost E S e) =
        createJsonResponse E
          (envelope ''error''
             (ascii ''Invalid request or server error: '' @ error_toString err))) \<and>
   (snd (doPost_try E S e) = Inr response \<longrightarrow> snd (doPost E S e) = response)"
proof (intro conjI impI)
  assume "postData e = Some body \<and> json_parse E body = Inl err"
  then have "doPost_try E S e = ([], Inl err)"
    by (simp add: doPost_try_def throw_def)
  then show "doPost E S e =
        ([Logged started_msg,
          Logged (ascii ''Critical Error in doPost: '' @ error_toString err)],
         createJsonResponse E
           (envelope ''error''
              (ascii ''Invalid request or server error: '' @ error_toString err)))"
    by (simp add: doPost_def server_error_msg_def)
next
  assume "postData e = Some body \<and> json_parse E body = Inr payload \<and>
    get_prop E payload (ascii ''action'') = Inr (Prim (Str a)) \<and>
    snd (dispatch E S payload (Prim (Str a)) a) = Inl err"
  then have "snd (doPost_try E S e) = Inl err"
    by (simp add: snd_doPost_try_action)
  then show "snd (doPost E S e) =
        createJsonResponse E
          (envelope ''error''
             (ascii ''Invalid request or server error: '' @ error_toString err))"
    by (simp add: snd_doPost server_error_msg_def)
next
  assume "snd (doPost_try E S e) = Inl err"
  then show "snd (doPost E S e) =
        createJsonResponse E
          (envelope ''error''
             (ascii ''Invalid request or server error: '' @ error_toString err))"
    by (simp add: snd_doPost server_error_msg_def)
next
  assume "snd (doPost_try E S e) = Inr response"
  then show "snd (doPost E S e) = response"
    by (simp add: snd_doPost)
qed

theorem doPost_catches_witness:
  \<open>snd (doPost demo_engine demo_services \<lparr>postData = Some (ascii ''not json'')\<rparr>) =
     \<lparr>content = ascii ''{"status":"error","message":"Invalid request or server error: SyntaxError: Unexpected token"}'',
      mimeType = ascii ''JSON''\<rparr> \<and>
   snd (doPost demo_engine (demo_services\<lparr>openById := \<lambda>i. Inl unreachable\<rparr>)
          \<lparr>postData = Some (ascii ''{"action":"getAllOrders"}'')\<rparr>) =
     \<lparr>content = ascii ''{"status":"error","message":"Invalid request or server error: Exception: Service Spreadsheets failed"}'',
      mimeType = ascii ''JSON''\<rparr> \<and>
   snd (doPost demo_engine demo_services
          \<lparr>postData = Some (ascii ''{"action":"updateOrderStatus","orderId":7}'')\<rparr>) =
     \<lparr>content = ascii ''{"status":"success","message":"Status updated successfully (simulation)."}'',
      mimeType = ascii ''JSON''\<rparr>\<close>
proof -
  let ?bad = "JsError (ascii ''SyntaxError'') (ascii ''Unexpected token'')"
  let ?S = "demo_services\<lparr>openById := \<lambda>i. Inl unreachable\<rparr>"
  let ?e1 = "\<lparr>postData = Some (ascii ''not json'')\<rparr>"
  let ?e2 = \<open>\<lparr>postData = Some (ascii ''{"action":"getAllOrders"}'')\<rparr>\<close>
  let ?e3 = \<open>\<lparr>postData = Some (ascii ''{"action":"updateOrderStatus","orderId":7}'')\<rparr>\<close>
  have a: "postData ?e1 = Some (ascii ''not json'') \<and>
      json_parse demo_engine (ascii ''not json'') = Inl ?bad"
    by (simp add: demo_request_eval)
  have b: \<open>postData ?e2 = Some (ascii ''{"action":"getAllOrders"}'') \<and>
      json_parse demo_engine (ascii ''{"action":"getAllOrders"}'') = Inr (request ''getAllOrders'' []) \<and>
      get_prop demo_engine (request ''getAllOrders'' []) (ascii ''action'') =
        Inr (Prim (Str (ascii ''getAllOrders''))) \<and>
      snd (dispatch demo_engine ?S (request ''getAllOrders'' [])
             (Prim (Str (ascii ''getAllOrders''))) (ascii ''getAllOrders'')) = Inl unreachable\<close>
    by (simp add: demo_request_eval dispatch_getAllOrders handleGetAllOrders_raises)
  have c: "snd (doPost_try demo_engine ?S ?e2) = Inl unreachable"
    using b by (simp add: snd_doPost_try_action)
  have d: \<open>snd (doPost_try demo_engine demo_services ?e3) =
      Inr (createJsonResponse demo_engine
             (envelope ''success'' (ascii ''Status updated successfully (simulation).'')))\<close>
    by (simp add: doPost_try_def demo_request_eval prim_to_string_def dispatch_def
        handleUpdateOrderStatus_def)
  have s: \<open>demo_stringify (envelope ''error''
             (ascii ''Invalid request or server error: '' @ error_toString ?bad)) =
      ascii ''{"status":"error","message":"Invalid request or server error: SyntaxError: Unexpected token"}''\<close>
    \<open>demo_stringify (envelope ''error''
             (ascii ''Invalid request or server error: '' @ error_toString unreachable)) =
      ascii ''{"status":"error","message":"Invalid request or server error: Exception: Service Spreadsheets failed"}''\<close>
    \<open>demo_stringify
      (envelope ''success'' (ascii ''Status updated successfully (simulation).'')) =
      ascii ''{"status":"success","message":"Status updated successfully (simulation)."}''\<close>
    by (simp_all add: envelope_def quoted_def error_toString_def unreachable_def ascii_def)
  have j: "json_stringify demo_engine = demo_stringify"
    by (simp add: demo_engine_def)
  show ?thesis
    using doPost_catches [of ?e1 _ demo_engine ?bad demo_services, THEN conjunct1, rule_format, OF a]
      doPost_catches [of ?e2 _ demo_engine unreachable ?S, THEN conjunct2, THEN conjunct1,
        rule_format, OF b]
      doPost_catches [of ?e2 _ demo_engine unreachable ?S, THEN conjunct2, THEN conjunct2,
        THEN conjunct1, rule_format, OF c]
      doPost_catches [of ?e3 _ demo_engine _ demo_services, THEN conjunct2, THEN conjunct2,
        THEN conjunct2, rule_format, OF d]
    by (simp add: createJsonResponse_def j s)
qed

section \<open>Client lookup\<close>

text \<open>
  C3. A \<open>getClientData\<close> request whose trimmed identifier equals the trimmed
  customer number or the trimmed phone of some customer record gets
  \<open>{status: "success", user, containers, materialOrders}\<close>, where \<open>user\<close> is the
  first record of the customers table that matches, and \<open>containers\<close> and
  \<open>materialOrders\<close> are the records of the container rentals and of the material
  orders, in table order, whose trimmed customer number equals the trimmed
  customer number of \<open>user\<close>, not the identifier that was sent.
\<close>

theorem getClientData_found:
  assumes "postData e = Some body"
    and "json_parse E body = Inr payload"
    and "get_prop E payload (ascii ''action'') = Inr (Prim (Str (ascii ''getClientData'')))"
    and "get_prop E payload (ascii ''customerId'') = Inr c"
    and "to_string E c = Inr s"
    and "openById S SPREADSHEET_ID = Inr ss"
    and "table_ok (ss SHEET_CUSTOMERS)"
    and "table_ok (ss SHEET_CONTAINER_RENTALS)"
    and "table_ok (ss SHEET_MATERIAL_ORDERS)"
    and "customers = table_records E (ss SHEET_CUSTOMERS)"
    and "\<exists>row \<in> set customers.
           trimmed_field E row KEY_CUSTOMER_NUMBER = trim s \<or>
           trimmed_field E row KEY_PHONE = trim s"
  shows "\<exists>i < length customers.
           (trimmed_field E (customers ! i) KEY_CUSTOMER_NUMBER = trim s \<or>
            trimmed_field E (customers ! i) KEY_PHONE = trim s) \<and>
           (\<forall>j < i. trimmed_field E (customers ! j) KEY_CUSTOMER_NUMBER \<noteq> trim s \<and>
                    trimmed_field E (customers ! j) KEY_PHONE \<noteq> trim s) \<and>
           snd (doPost E S e) =
             createJsonResponse E
               (Obj [(ascii ''status'', Prim (Str (ascii ''success''))),
                     (ascii ''user'', record_val (customers ! i)),
                     (ascii ''containers'',
                      Arr (map record_val
                        (filter (\<lambda>row. trimmed_field E row KEY_CUSTOMER_NUMBER =
                                       trimmed_field E (customers ! i) KEY_CUSTOMER_NUMBER)
                           (table_records E (ss SHEET_CONTAINER_RENTALS))))),
                     (ascii ''materialOrders'',
                      Arr (map record_val
                        (filter (\<lambda>row. trimmed_field E row KEY_CUSTOMER_NUMBER =
                                       trimmed_field E (customers ! i) KEY_CUSTOMER_NUMBER)
                           (table_records E (ss SHEET_MATERIAL_ORDERS)))))])"
proof -
  from assms(11) have "find (matches_customer E (trim s)) customers \<noteq> None"
    by (auto simp: find_None_iff matches_customer_def)
  then obtain user where u: "find (matches_customer E (trim s)) customers = Some user"
    by blast
  then obtain i where i: "i < length customers" "matches_customer E (trim s) (customers ! i)"
      "user = customers ! i" "\<forall>j < i. \<not> matches_customer E (trim s) (customers ! j)"
    by (auto simp: find_Some_iff)
  have "snd (handleGetClientData E S payload) =
      Inr (createJsonResponse E
             (client_data user
                (filter (\<lambda>row. trimmed_field E row KEY_CUSTOMER_NUMBER =
                               trimmed_field E user KEY_CUSTOMER_NUMBER)
                   (table_records E (ss SHEET_CONTAINER_RENTALS)))
                (filter (\<lambda>row. trimmed_field E row KEY_CUSTOMER_NUMBER =
                               trimmed_field E user KEY_CUSTOMER_NUMBER)
                   (table_records E (ss SHEET_MATERIAL_ORDERS)))))"
    using handleGetClientData_result [OF assms(6,4,5,7,8,9)] u assms(10) by simp
  then have "snd (doPost E S e) =
      createJsonResponse E
             (client_data user
                (filter (\<lambda>row. trimmed_field E row KEY_CUSTOMER_NUMBER =
                               trimmed_field E user KEY_CUSTOMER_NUMBER)
                   (table_records E (ss SHEET_CONTAINER_RENTALS)))
                (filter (\<lambda>row. trimmed_field E row KEY_CUSTOMER_NUMBER =
                               trimmed_field E user KEY_CUSTOMER_NUMBER)
                   (table_records E (ss SHEET_MATERIAL_ORDERS))))"
    by (rule doPost_getClientData [OF assms(1,2,3)])
  with i show ?thesis
    by (auto simp: client_data_def matches_customer_def intro!: exI [of _ i])
qed

theorem getClientData_found_witness:
  \<open>snd (doPost demo_engine demo_services
          \<lparr>postData = Some (ascii ''{"action":"getClientData","customerId":" 0501234567"}'')\<rparr>) =
     createJsonResponse demo_engine
       (Obj [(ascii ''status'', Prim (Str (ascii ''success''))),
             (ascii ''user'',
              record_val [(KEY_CUSTOMER_NUMBER, Str (ascii ''456 '')),
                          (KEY_PHONE, Str (ascii ''0501234567'')), (ascii ''joined'', Str [])]),
             (ascii ''containers'',
              Arr (map record_val
                [[(KEY_CUSTOMER_NUMBER, Num 456), (ascii ''size'', Str (ascii ''8m''))],
                 [(KEY_CUSTOMER_NUMBER, Str (ascii '' 456'')),
                  (ascii ''size'', Str (ascii ''10m''))]])),
             (ascii ''materialOrders'',
              Arr (map record_val
                [[(KEY_CUSTOMER_NUMBER, Num 456),
                  (KEY_RECEIVED_DATE, Str (ascii ''2024-01-01T00:00:00.000Z''))]]))])\<close>
proof -
  let ?body = \<open>ascii ''{"action":"getClientData","customerId":" 0501234567"}''\<close>
  let ?payload = "request ''getClientData'' [(''customerId'', Str (ascii '' 0501234567''))]"
  let ?cs = "table_records demo_engine (demo_spreadsheet SHEET_CUSTOMERS)"
  let ?hit = "\<lambda>row. trimmed_field demo_engine row KEY_CUSTOMER_NUMBER = trim (ascii '' 0501234567'') \<or>
                    trimmed_field demo_engine row KEY_PHONE = trim (ascii '' 0501234567'')"
  have p: "postData \<lparr>postData = Some ?body\<rparr> = Some ?body"
    by simp
  have j: "json_parse demo_engine ?body = Inr ?payload"
    by (simp add: demo_request_eval)
  have a: "get_prop demo_engine ?payload (ascii ''action'') = Inr (Prim (Str (ascii ''getClientData'')))"
    by (simp add: demo_request_eval)
  have c: "get_prop demo_engine ?payload (ascii ''customerId'') =
      Inr (Prim (Str (ascii '' 0501234567'')))"
    by (simp add: demo_request_eval)
  have s: "to_string demo_engine (Prim (Str (ascii '' 0501234567''))) = Inr (ascii '' 0501234567'')"
    by (simp add: prim_to_string_def)
  have o: "openById demo_services SPREADSHEET_ID = Inr demo_spreadsheet"
    by (simp add: demo_services_def)
  have h0: "\<not> ?hit (?cs ! 0)" and h1: "?hit (?cs ! 1)"
    unfolding demo_customer_records
    by (simp_all add: trimmed_field_def get_field_def demo_engine_def string_eval column_names
        ascii_def)
  have ex: "\<exists>row \<in> set ?cs. ?hit row"
    using h1 by (intro bexI [of _ "?cs ! 1"]) (simp_all add: demo_customer_records)
  from getClientData_found [OF p j a c s o demo_tables_ok(1,2,3) refl ex]
  obtain i where i: "i < length ?cs" "?hit (?cs ! i)" "\<forall>j < i. \<not> ?hit (?cs ! j)"
    and resp: "snd (doPost demo_engine demo_services \<lparr>postData = Some ?body\<rparr>) =
      createJsonResponse demo_engine
        (Obj [(ascii ''status'', Prim (Str (ascii ''success''))),
              (ascii ''user'', record_val (?cs ! i)),
              (ascii ''containers'',
               Arr (map record_val
                 (filter (\<lambda>row. trimmed_field demo_engine row KEY_CUSTOMER_NUMBER =
                                trimmed_field demo_engine (?cs ! i) KEY_CUSTOMER_NUMBER)
                    (table_records demo_engine (demo_spreadsheet SHEET_CONTAINER_RENTALS))))),
              (ascii ''materialOrders'',
               Arr (map record_val
                 (filter (\<lambda>row. trimmed_field demo_engine row KEY_CUSTOMER_NUMBER =
                                trimmed_field demo_engine (?cs ! i) KEY_CUSTOMER_NUMBER)
                    (table_records demo_engine (demo_spreadsheet SHEET_MATERIAL_ORDERS)))))])"
    by auto
  have "i = 1"
  proof (rule ccontr)
    assume "i \<noteq> 1"
    then consider "i = 0" | "1 < i" by arith
    then show False
    proof cases
      case 1
      with i(2) h0 show False by simp
    next
      case 2
      with i(3) h1 show False by blast
    qed
  qed
  with resp show ?thesis
    unfolding demo_customer_records demo_rental_records demo_material_records
    by (simp add: trimmed_field_def get_field_def demo_engine_def string_eval column_names
        ascii_def)
qed

text \<open>
  C4. A \<open>getClientData\<close> request whose trimmed identifier equals neither the
  trimmed customer number nor the trimmed phone of any customer record gets the
  object with the two properties \<open>status: "error"\<close> and
  \<open>message: "Client not found"\<close>, and so no \<open>user\<close>, \<open>containers\<close> or
  \<open>materialOrders\<close>.
\<close>

theorem getClientData_not_found:
  assumes "postData e = Some body"
    and "json_parse E body = Inr payload"
    and "get_prop E payload (ascii ''action'') = Inr (Prim (Str (ascii ''getClientData'')))"
    and "get_prop E payload (ascii ''customerId'') = Inr c"
    and "to_string E c = Inr s"
    and "openById S SPREADSHEET_ID = Inr ss"
    and "table_ok (ss SHEET_CUSTOMERS)"
    and "\<forall>row \<in> set (table_records E (ss SHEET_CUSTOMERS)).
           trimmed_field E row KEY_CUSTOMER_NUMBER \<noteq> trim s \<and>
           trimmed_field E row KEY_PHONE \<noteq> trim s"
  shows "snd (doPost E S e) =
           createJsonResponse E
             (Obj [(ascii ''status'', Prim (Str (ascii ''error''))),
                   (ascii ''message'', Prim (Str (ascii ''Client not found'')))])"
proof -
  have "find (matches_customer E (trim s)) (table_records E (ss SHEET_CUSTOMERS)) = None"
    using assms(8) by (simp add: find_None_iff matches_customer_def)
  then have "snd (handleGetClientData E S payload) =
      Inr (createJsonResponse E (envelope ''error'' (ascii ''Client not found'')))"
    using lookup_without_match [OF assms(6,4,5,7)] by simp
  then show ?thesis
    using doPost_getClientData [OF assms(1,2,3)] by (simp add: envelope_def)
qed

theorem getClientData_not_found_witness:
  \<open>snd (doPost demo_engine demo_services
          \<lparr>postData = Some (ascii ''{"action":"getClientData","customerId":999}'')\<rparr>) =
     createJsonResponse demo_engine
       (Obj [(ascii ''status'', Prim (Str (ascii ''error''))),
             (ascii ''message'', Prim (Str (ascii ''Client not found'')))])\<close>
proof -
  let ?body = \<open>ascii ''{"action":"getClientData","customerId":999}''\<close>
  let ?payload = "request ''getClientData'' [(''customerId'', Num 999)]"
  have p: "postData \<lparr>postData = Some ?body\<rparr> = Some ?body"
    by simp
  have j: "json_parse demo_engine ?body = Inr ?payload"
    by (simp add: demo_request_eval)
  have a: "get_prop demo_engine ?payload (ascii ''action'') = Inr (Prim (Str (ascii ''getClientData'')))"
    by (simp add: demo_request_eval)
  have c: "get_prop demo_engine ?payload (ascii ''customerId'') = Inr (Prim (Num 999))"
    by (simp add: demo_request_eval)
  have s: "to_string demo_engine (Prim (Num 999)) = Inr (ascii ''999'')"
    by (simp add: demo_engine_def string_eval ascii_def)
  have t: "trim (ascii ''999'') = ascii ''999''"
    by (simp add: string_eval ascii_def)
  have o: "openById demo_services SPREADSHEET_ID = Inr demo_spreadsheet"
    by (simp add: demo_services_def)
  have k: "table_ok (demo_spreadsheet SHEET_CUSTOMERS)"
    by (simp add: demo_spreadsheet_def table_ok_def sheet_ok_def demo_customers_def sheet_of_def)
  have r: "table_records demo_engine (demo_spreadsheet SHEET_CUSTOMERS) =
     [[(KEY_CUSTOMER_NUMBER, Num 123), (KEY_PHONE, Str (ascii ''0527654321'')),
       (ascii ''joined'', Str (ascii ''2024-01-01T00:00:00.000Z''))],
      [(KEY_CUSTOMER_NUMBER, Str (ascii ''456 '')), (KEY_PHONE, Str (ascii ''0501234567'')),
       (ascii ''joined'', Str [])],
      [(KEY_CUSTOMER_NUMBER, Num 789), (KEY_PHONE, Str (ascii ''0501234567'')),
       (ascii ''joined'', Str [])]]"
    by (simp add: demo_spreadsheet_def demo_customers_def record_eval demo_engine_def
        demo_dates_def column_names ascii_def)
  have n: "\<forall>row \<in> set (table_records demo_engine (demo_spreadsheet SHEET_CUSTOMERS)).
           trimmed_field demo_engine row KEY_CUSTOMER_NUMBER \<noteq> trim (ascii ''999'') \<and>
           trimmed_field demo_engine row KEY_PHONE \<noteq> trim (ascii ''999'')"
    unfolding r t
    by (simp add: trimmed_field_def get_field_def demo_engine_def string_eval column_names ascii_def)
  show ?thesis
    by (rule getClientData_not_found [OF p j a c s o k n])
qed

section \<open>The order feed\<close>

text \<open>
  C5, as amended. For a \<open>getAllOrders\<close> or \<open>getAdminDashboardData\<close> request the
  list \<open>orders\<close> has as many records as the two tables together; it holds the
  material orders, each with \<open>orderType\<close> \<open>materials\<close>, and the container orders,
  each with \<open>orderType\<close> \<open>container\<close>, and nothing else; and when the date of
  every record resolves to a valid timestamp (from the received date, or from the
  order date when the received date is empty or absent), the list is in
  non-increasing order of that timestamp.
\<close>

theorem getAllOrders_feed:
  assumes "postData e = Some body"
    and "json_parse E body = Inr payload"
    and "get_prop E payload (ascii ''action'') = Inr (Prim (Str a))"
    and "a = ascii ''getAllOrders'' \<or> a = ascii ''getAdminDashboardData''"
    and "openById S SPREADSHEET_ID = Inr ss"
    and "table_ok (ss SHEET_MATERIAL_ORDERS)"
    and "table_ok (ss SHEET_CONTAINER_ORDERS)"
    and "ms = table_records E (ss SHEET_MATERIAL_ORDERS)"
    and "cs = table_records E (ss SHEET_CONTAINER_ORDERS)"
    and "os = merged_orders E ms cs"
  shows "snd (doPost E S e) =
           createJsonResponse E
             (Obj [(ascii ''status'', Prim (Str (ascii ''success''))),
                   (ascii ''orders'', Arr (map record_val os))]) \<and>
         length os = length ms + length cs \<and>
         mset os = mset (map (with_orderType (ascii ''materials'')) ms) +
                   mset (map (with_orderType (ascii ''container'')) cs) \<and>
         map (\<lambda>r. get_field r (ascii ''orderType'')) (map (with_orderType (ascii ''materials'')) ms) =
           replicate (length ms) (Str (ascii ''materials'')) \<and>
         map (\<lambda>r. get_field r (ascii ''orderType'')) (map (with_orderType (ascii ''container'')) cs) =
           replicate (length cs) (Str (ascii ''container'')) \<and>
         (list_all (\<lambda>r. order_time E r \<noteq> None) (ms @ cs) \<longrightarrow> newest_first E os)"
proof -
  have "snd (handleGetAllOrders E S) = Inr (createJsonResponse E (all_orders os))"
    using handleGetAllOrders_result [OF assms(5,6,7)] assms(8,9,10) by simp
  then have "snd (doPost E S e) = createJsonResponse E (all_orders os)"
    by (rule doPost_getAllOrders [OF assms(1,2,3,4)])
  then show ?thesis
    by (simp add: all_orders_def assms(10) merged_orders_facts merged_orders_sorted
        comp_def map_replicate_const)
qed

theorem getAllOrders_feed_witness:
  \<open>snd (doPost demo_engine demo_services \<lparr>postData = Some (ascii ''{"action":"getAllOrders"}'')\<rparr>) =
     createJsonResponse demo_engine
       (Obj [(ascii ''status'', Prim (Str (ascii ''success''))),
             (ascii ''orders'',
              Arr (map record_val
                [[(KEY_CUSTOMER_NUMBER, Num 123),
                  (KEY_RECEIVED_DATE, Str (ascii ''2024-01-03T00:00:00.000Z'')),
                  (ascii ''orderType'', Str (ascii ''materials''))],
                 [(KEY_CUSTOMER_NUMBER, Num 456),
                  (KEY_ORDER_DATE, Str (ascii ''2024-01-02T00:00:00.000Z'')),
                  (ascii ''orderType'', Str (ascii ''container''))],
                 [(KEY_CUSTOMER_NUMBER, Num 456),
                  (KEY_RECEIVED_DATE, Str (ascii ''2024-01-01T00:00:00.000Z'')),
                  (ascii ''orderType'', Str (ascii ''materials''))]]))]) \<and>
   snd (doPost demo_engine demo_services
          \<lparr>postData = Some (ascii ''{"action":"getAdminDashboardData"}'')\<rparr>) =
     snd (doPost demo_engine demo_services \<lparr>postData = Some (ascii ''{"action":"getAllOrders"}'')\<rparr>) \<and>
   newest_first demo_engine
     [[(KEY_CUSTOMER_NUMBER, Num 123),
       (KEY_RECEIVED_DATE, Str (ascii ''2024-01-03T00:00:00.000Z'')),
       (ascii ''orderType'', Str (ascii ''materials''))],
      [(KEY_CUSTOMER_NUMBER, Num 456),
       (KEY_ORDER_DATE, Str (ascii ''2024-01-02T00:00:00.000Z'')),
       (ascii ''orderType'', Str (ascii ''container''))],
      [(KEY_CUSTOMER_NUMBER, Num 456),
       (KEY_RECEIVED_DATE, Str (ascii ''2024-01-01T00:00:00.000Z'')),
       (ascii ''orderType'', Str (ascii ''materials''))]]\<close>
proof -
  let ?b1 = \<open>ascii ''{"action":"getAllOrders"}''\<close>
  let ?b2 = \<open>ascii ''{"action":"getAdminDashboardData"}''\<close>
  let ?ms = "table_records demo_engine (demo_spreadsheet SHEET_MATERIAL_ORDERS)"
  let ?cs = "table_records demo_engine (demo_spreadsheet SHEET_CONTAINER_ORDERS)"
  have p: "postData \<lparr>postData = Some b\<rparr> = Some b" for b :: jsstring
    by simp
  have j: "json_parse demo_engine ?b1 = Inr (request ''getAllOrders'' [])"
      "json_parse demo_engine ?b2 = Inr (request ''getAdminDashboardData'' [])"
    by (simp_all add: demo_request_eval)
  have a: "get_prop demo_engine (request ''getAllOrders'' []) (ascii ''action'') =
        Inr (Prim (Str (ascii ''getAllOrders'')))"
      "get_prop demo_engine (request ''getAdminDashboardData'' []) (ascii ''action'') =
        Inr (Prim (Str (ascii ''getAdminDashboardData'')))"
    by (simp_all add: demo_request_eval)
  have o: "openById demo_services SPREADSHEET_ID = Inr demo_spreadsheet"
    by (simp add: demo_services_def)
  have v: "list_all (\<lambda>r. order_time demo_engine r \<noteq> None) (?ms @ ?cs)"
    unfolding demo_material_records demo_order_records
    by (simp add: order_eval demo_engine_def demo_dates_def column_names ascii_def)
  note w1 = getAllOrders_feed [OF p j(1) a(1) disjI1 [OF refl] o demo_tables_ok(3,4) refl refl refl]
  note w2 = getAllOrders_feed [OF p j(2) a(2) disjI2 [OF refl] o demo_tables_ok(3,4) refl refl refl]
  have n: "newest_first demo_engine (merged_orders demo_engine ?ms ?cs)"
    using w1 v by blast
  show ?thesis
    using w1 [THEN conjunct1] w2 [THEN conjunct1] n
    unfolding demo_merged_orders by simp
qed

text \<open>
  C5, as stated, fails when a record has no valid date. The comparator then
  returns NaN for every pair with that record, the sort takes NaN for "equal",
  and the records around it are left as they came: an order of 1 January stays
  before an order of 2 January.
\<close>

theorem getAllOrders_unsorted_counterexample:
  \<open>snd (doPost demo_engine (demo_services\<lparr>openById := \<lambda>i. Inr gap_spreadsheet\<rparr>)
          \<lparr>postData = Some (ascii ''{"action":"getAllOrders"}'')\<rparr>) =
     createJsonResponse demo_engine
       (Obj [(ascii ''status'', Prim (Str (ascii ''success''))),
             (ascii ''orders'',
              Arr (map record_val
                [[(KEY_CUSTOMER_NUMBER, Num 456),
                  (KEY_RECEIVED_DATE, Str (ascii ''2024-01-01T00:00:00.000Z'')),
                  (ascii ''orderType'', Str (ascii ''materials''))],
                 [(KEY_CUSTOMER_NUMBER, Num 123),
                  (KEY_RECEIVED_DATE, Str []),
                  (ascii ''orderType'', Str (ascii ''container''))],
                 [(KEY_CUSTOMER_NUMBER, Num 789),
                  (KEY_RECEIVED_DATE, Str (ascii ''2024-01-02T00:00:00.000Z'')),
                  (ascii ''orderType'', Str (ascii ''container''))]]))]) \<and>
   map (order_time demo_engine)
     [[(KEY_CUSTOMER_NUMBER, Num 456),
       (KEY_RECEIVED_DATE, Str (ascii ''2024-01-01T00:00:00.000Z'')),
       (ascii ''orderType'', Str (ascii ''materials''))],
      [(KEY_CUSTOMER_NUMBER, Num 123),
       (KEY_RECEIVED_DATE, Str []),
       (ascii ''orderType'', Str (ascii ''container''))],
      [(KEY_CUSTOMER_NUMBER, Num 789),
       (KEY_RECEIVED_DATE, Str (ascii ''2024-01-02T00:00:00.000Z'')),
       (ascii ''orderType'', Str (ascii ''container''))]] =
     [Some 1704067200000, None, Some 1704153600000] \<and>
   \<not> newest_first demo_engine
     [[(KEY_CUSTOMER_NUMBER, Num 456),
       (KEY_RECEIVED_DATE, Str (ascii ''2024-01-01T00:00:00.000Z'')),
       (ascii ''orderType'', Str (ascii ''materials''))],
      [(KEY_CUSTOMER_NUMBER, Num 123),
       (KEY_RECEIVED_DATE, Str []),
       (ascii ''orderType'', Str (ascii ''container''))],
      [(KEY_CUSTOMER_NUMBER, Num 789),
       (KEY_RECEIVED_DATE, Str (ascii ''2024-01-02T00:00:00.000Z'')),
       (ascii ''orderType'', Str (ascii ''container''))]]\<close>
proof -
  let ?S = "demo_services\<lparr>openById := \<lambda>i. Inr gap_spreadsheet\<rparr>"
  let ?b = \<open>ascii ''{"action":"getAllOrders"}''\<close>
  have p: "postData \<lparr>postData = Some ?b\<rparr> = Some ?b"
    by simp
  have j: "json_parse demo_engine ?b = Inr (request ''getAllOrders'' [])"
    by (simp add: demo_request_eval)
  have a: "get_prop demo_engine (request ''getAllOrders'' []) (ascii ''action'') =
        Inr (Prim (Str (ascii ''getAllOrders'')))"
    by (simp add: demo_request_eval)
  have o: "openById ?S SPREADSHEET_ID = Inr gap_spreadsheet"
    by simp
  have k: "table_ok (gap_spreadsheet SHEET_MATERIAL_ORDERS)"
      "table_ok (gap_spreadsheet SHEET_CONTAINER_ORDERS)"
    by (simp_all add: gap_spreadsheet_def table_ok_def sheet_ok_def sheet_of_def sheet_names)
  have m: "merged_orders demo_engine
      (table_records demo_engine (gap_spreadsheet SHEET_MATERIAL_ORDERS))
      (table_records demo_engine (gap_spreadsheet SHEET_CONTAINER_ORDERS)) =
    [[(KEY_CUSTOMER_NUMBER, Num 456),
      (KEY_RECEIVED_DATE, Str (ascii ''2024-01-01T00:00:00.000Z'')),
      (ascii ''orderType'', Str (ascii ''materials''))],
     [(KEY_CUSTOMER_NUMBER, Num 123),
      (KEY_RECEIVED_DATE, Str []),
      (ascii ''orderType'', Str (ascii ''container''))],
     [(KEY_CUSTOMER_NUMBER, Num 789),
      (KEY_RECEIVED_DATE, Str (ascii ''2024-01-02T00:00:00.000Z'')),
      (ascii ''orderType'', Str (ascii ''container''))]]"
    by (simp add: gap_spreadsheet_def record_eval order_eval demo_engine_def demo_dates_def
        sheet_names column_names ascii_def)
  have r: "snd (handleGetAllOrders demo_engine ?S) =
      Inr (createJsonResponse demo_engine
             (all_orders (merged_orders demo_engine
                (table_records demo_engine (gap_spreadsheet SHEET_MATERIAL_ORDERS))
                (table_records demo_engine (gap_spreadsheet SHEET_CONTAINER_ORDERS)))))"
    by (rule handleGetAllOrders_result [OF o k])
  have d: "snd (doPost demo_engine ?S \<lparr>postData = Some ?b\<rparr>) =
      createJsonResponse demo_engine
             (all_orders (merged_orders demo_engine
                (table_records demo_engine (gap_spreadsheet SHEET_MATERIAL_ORDERS))
                (table_records demo_engine (gap_spreadsheet SHEET_CONTAINER_ORDERS))))"
    by (rule doPost_getAllOrders [OF p j a disjI1 [OF refl] r])
  show ?thesis
    using d unfolding m
    by (simp add: all_orders_def newest_first_def time_ge_def order_time_def order_date_field_def
        new_Date_def prim_falsy_def get_field_def demo_engine_def demo_dates_def column_names
        ascii_def)
qed

section \<open>Notifications\<close>

text \<open>
  C6. With both credentials present, a \<open>sendNotificationToClient\<close> request makes
  exactly one call of \<open>UrlFetchApp.fetch\<close>, a POST to the provider, and its outcome
  decides the response:
  \<^item> status 200 and \<open>recipients > 0\<close>: status \<open>success\<close>, the message holding the
    recipient count;
  \<^item> status 200 and \<open>recipients > 0\<close> false, as for \<open>0\<close>: status \<open>warning\<close>;
  \<^item> any other status: status \<open>error\<close>, the message holding the status code and
    the response body as received;
  \<^item> an exception of the call, or of parsing the response body: status \<open>error\<close>,
    the message holding the description of the exception.
\<close>

theorem sendNotification_outcomes:
  assumes "postData e = Some body"
    and "json_parse E body = Inr payload"
    and "get_prop E payload (ascii ''action'') = Inr (Prim (Str (ascii ''sendNotificationToClient'')))"
    and "getProperty S (ascii ''ONE_SIGNAL_APP_ID'') = Some app" and "app \<noteq> []"
    and "getProperty S (ascii ''ONE_SIGNAL_REST_API_KEY'') = Some key" and "key \<noteq> []"
    and "get_prop E payload (ascii ''clientId'') = Inr cid"
    and "get_prop E payload (ascii ''title'') = Inr title"
    and "get_prop E payload (ascii ''message'') = Inr msg"
    and "to_string E cid = Inr client"
    and "options = build_options E key (build_notification app title msg client)"
  shows "filter is_fetch (fst (doPost E S e)) = [UrlFetch ONESIGNAL_URL options] \<and>
    (fetch S ONESIGNAL_URL options = Inr r \<and> responseCode r = 200 \<and>
     json_parse E (contentText r) = Inr pb \<and>
     get_prop E pb (ascii ''recipients'') = Inr rv \<and>
     js_gt_zero E rv = Inr True \<and> to_string E rv = Inr cnt \<longrightarrow>
       snd (doPost E S e) =
         createJsonResponse E
           (envelope ''success''
              (ascii ''Notification sent successfully to '' @ cnt @ ascii '' recipient(s).''))) \<and>
    (fetch S ONESIGNAL_URL options = Inr r \<and> responseCode r = 200 \<and>
     json_parse E (contentText r) = Inr pb \<and>
     get_prop E pb (ascii ''recipients'') = Inr rv \<and>
     js_gt_zero E rv = Inr False \<longrightarrow>
       snd (doPost E S e) =
         createJsonResponse E
           (envelope ''warning''
              (ascii ''Notification sent, but no recipients found for Client ID: '' @ client @
               ascii ''. Please verify the client has enabled notifications and is correctly identified in OneSignal.''))) \<and>
    (fetch S ONESIGNAL_URL options = Inr r \<and> responseCode r \<noteq> 200 \<longrightarrow>
       snd (doPost E S e) =
         createJsonResponse E
           (envelope ''error''
              (ascii ''Failed to send notification. OneSignal returned status '' @
               show_int (responseCode r) @ ascii ''. Details: '' @ contentText r))) \<and>
    (fetch S ONESIGNAL_URL options = Inl err \<longrightarrow>
       snd (doPost E S e) =
         createJsonResponse E
           (envelope ''error''
              (ascii ''Failed to send notification due to a script error: '' @
               error_toString err))) \<and>
    (fetch S ONESIGNAL_URL options = Inr r \<and> responseCode r = 200 \<and>
     json_parse E (contentText r) = Inl err \<longrightarrow>
       snd (doPost E S e) =
         createJsonResponse E
           (envelope ''error''
              (ascii ''Failed to send notification due to a script error: '' @
               error_toString err)))"
proof -
  note d = doPost_sendNotification_snd [OF assms, unfolded send_and_classify_snd]
  have f: "filter is_fetch (fst (doPost E S e)) = [UrlFetch ONESIGNAL_URL options]"
    by (simp add: filter_fetch_doPost doPost_sendNotification [OF assms(1,2,3)]
        handleSendNotification_fetches [OF assms(4-12)] is_fetch_def)
  show ?thesis
    using d f
    by (auto simp: sent_msg_def no_recipients_msg_def failed_status_msg_def script_error_msg_def)
qed

theorem sendNotification_outcomes_witness:
  \<open>snd (doPost demo_engine
          (demo_services\<lparr>fetch := \<lambda>url options.
             Inr \<lparr>responseCode = 200, contentText = ascii ''{"id":"n-1","recipients":3}''\<rparr>\<rparr>)
          \<lparr>postData = Some (ascii ''{"action":"sendNotificationToClient","clientId":123,"title":"Hi","message":"Ready"}'')\<rparr>) =
     createJsonResponse demo_engine
       (envelope ''success'' (ascii ''Notification sent successfully to 3 recipient(s).'')) \<and>
   snd (doPost demo_engine
          (demo_services\<lparr>fetch := \<lambda>url options.
             Inr \<lparr>responseCode = 200, contentText = ascii ''{"id":"","recipients":0}''\<rparr>\<rparr>)
          \<lparr>postData = Some (ascii ''{"action":"sendNotificationToClient","clientId":123,"title":"Hi","message":"Ready"}'')\<rparr>) =
     createJsonResponse demo_engine
       (envelope ''warning''
          (ascii ''Notification sent, but no recipients found for Client ID: 123. Please verify the client has enabled notifications and is correctly identified in OneSignal.'')) \<and>
   snd (doPost demo_engine
          (demo_services\<lparr>fetch := \<lambda>url options.
             Inr \<lparr>responseCode = 500, contentText = ascii ''Internal Server Error''\<rparr>\<rparr>)
          \<lparr>postData = Some (ascii ''{"action":"sendNotificationToClient","clientId":123,"title":"Hi","message":"Ready"}'')\<rparr>) =
     createJsonResponse demo_engine
       (envelope ''error''
          (ascii ''Failed to send notification. OneSignal returned status 500. Details: Internal Server Error'')) \<and>
   snd (doPost demo_engine
          (demo_services\<lparr>fetch := \<lambda>url options.
             Inl (JsError (ascii ''Exception'') (ascii ''Address unavailable''))\<rparr>)
          \<lparr>postData = Some (ascii ''{"action":"sendNotificationToClient","clientId":123,"title":"Hi","message":"Ready"}'')\<rparr>) =
     createJsonResponse demo_engine
       (envelope ''error''
          (ascii ''Failed to send notification due to a script error: Exception: Address unavailable'')) \<and>
   snd (doPost demo_engine
          (demo_services\<lparr>fetch := \<lambda>url options.
             Inr \<lparr>responseCode = 200, contentText = ascii ''<html>''\<rparr>\<rparr>)
          \<lparr>postData = Some (ascii ''{"action":"sendNotificationToClient","clientId":123,"title":"Hi","message":"Ready"}'')\<rparr>) =
     createJsonResponse demo_engine
       (envelope ''error''
          (ascii ''Failed to send notification due to a script error: SyntaxError: Unexpected token'')) \<and>
   filter is_fetch
     (fst (doPost demo_engine
          (demo_services\<lparr>fetch := \<lambda>url options.
             Inr \<lparr>responseCode = 500, contentText = ascii ''Internal Server Error''\<rparr>\<rparr>)
          \<lparr>postData = Some (ascii ''{"action":"sendNotificationToClient","clientId":123,"title":"Hi","message":"Ready"}'')\<rparr>)) =
     [UrlFetch (ascii ''https://onesignal.com/api/v1/notifications'')
        \<lparr>fo_method = ascii ''post'', fo_contentType = ascii ''application/json'',
         fo_headers = [(ascii ''Authorization'', ascii ''Basic key-1'')],
         fo_payload = ascii ''{"app_id":"app-1","contents":{"en":"Ready","he":"Ready"},"headings":{"en":"Hi","he":"Hi"},"include_external_user_ids":["123"]}'',
         fo_muteHttpExceptions = True\<rparr>]\<close>
proof -
  let ?S = "\<lambda>f. demo_services\<lparr>fetch := f\<rparr>"
  let ?body = \<open>ascii ''{"action":"sendNotificationToClient","clientId":123,"title":"Hi","message":"Ready"}''\<close>
  let ?payload = "request ''sendNotificationToClient''
         [(''clientId'', Num 123), (''title'', Str (ascii ''Hi'')),
          (''message'', Str (ascii ''Ready''))]"
  let ?options = "build_options demo_engine (ascii ''key-1'')
      (build_notification (ascii ''app-1'') (Prim (Str (ascii ''Hi''))) (Prim (Str (ascii ''Ready'')))
         (ascii ''123''))"
  let ?ok = \<open>\<lparr>responseCode = 200, contentText = ascii ''{"id":"n-1","recipients":3}''\<rparr>\<close>
  let ?zero = \<open>\<lparr>responseCode = 200, contentText = ascii ''{"id":"","recipients":0}''\<rparr>\<close>
  let ?ise = "\<lparr>responseCode = 500, contentText = ascii ''Internal Server Error''\<rparr>"
  let ?down = "JsError (ascii ''Exception'') (ascii ''Address unavailable'')"
  let ?html = "\<lparr>responseCode = 200, contentText = ascii ''<html>''\<rparr>"
  let ?bad = "JsError (ascii ''SyntaxError'') (ascii ''Unexpected token'')"
  have p: "postData \<lparr>postData = Some ?body\<rparr> = Some ?body"
    by simp
  have j: "json_parse demo_engine ?body = Inr ?payload"
    by (simp add: demo_request_eval)
  have a: "get_prop demo_engine ?payload (ascii ''action'') =
      Inr (Prim (Str (ascii ''sendNotificationToClient'')))"
    by (simp add: demo_request_eval)
  have k: "getProperty (?S f) (ascii ''ONE_SIGNAL_APP_ID'') = Some (ascii ''app-1'')"
      "ascii ''app-1'' \<noteq> []"
      "getProperty (?S f) (ascii ''ONE_SIGNAL_REST_API_KEY'') = Some (ascii ''key-1'')"
      "ascii ''key-1'' \<noteq> []" for f
    by (simp_all add: demo_services_def)
  have g: "get_prop demo_engine ?payload (ascii ''clientId'') = Inr (Prim (Num 123))"
      "get_prop demo_engine ?payload (ascii ''title'') = Inr (Prim (Str (ascii ''Hi'')))"
      "get_prop demo_engine ?payload (ascii ''message'') = Inr (Prim (Str (ascii ''Ready'')))"
    by (simp_all add: demo_request_eval)
  have c: "to_string demo_engine (Prim (Num 123)) = Inr (ascii ''123'')"
    by (simp add: demo_engine_def string_eval ascii_def)
  note w = sendNotification_outcomes [OF p j a k g c refl]
  have ok: \<open>fetch (?S (\<lambda>url options. Inr ?ok)) ONESIGNAL_URL ?options = Inr ?ok \<and>
      responseCode ?ok = 200 \<and>
      json_parse demo_engine (contentText ?ok) =
        Inr (Obj [(ascii ''id'', Prim (Str (ascii ''n-1''))), (ascii ''recipients'', Prim (Num 3))]) \<and>
      get_prop demo_engine
        (Obj [(ascii ''id'', Prim (Str (ascii ''n-1''))), (ascii ''recipients'', Prim (Num 3))])
        (ascii ''recipients'') = Inr (Prim (Num 3)) \<and>
      js_gt_zero demo_engine (Prim (Num 3)) = Inr True \<and>
      to_string demo_engine (Prim (Num 3)) = Inr (ascii ''3'')\<close>
    by (simp add: demo_request_eval js_gt_zero_def string_eval ascii_def)
  have zero: \<open>fetch (?S (\<lambda>url options. Inr ?zero)) ONESIGNAL_URL ?options = Inr ?zero \<and>
      responseCode ?zero = 200 \<and>
      json_parse demo_engine (contentText ?zero) =
        Inr (Obj [(ascii ''id'', Prim (Str [])), (ascii ''recipients'', Prim (Num 0))]) \<and>
      get_prop demo_engine
        (Obj [(ascii ''id'', Prim (Str [])), (ascii ''recipients'', Prim (Num 0))])
        (ascii ''recipients'') = Inr (Prim (Num 0)) \<and>
      js_gt_zero demo_engine (Prim (Num 0)) = Inr False\<close>
    by (simp add: demo_request_eval js_gt_zero_def)
  have ise: "fetch (?S (\<lambda>url options. Inr ?ise)) ONESIGNAL_URL ?options = Inr ?ise \<and>
      responseCode ?ise \<noteq> 200"
    by simp
  have down: "fetch (?S (\<lambda>url options. Inl ?down)) ONESIGNAL_URL ?options = Inl ?down"
    by simp
  have html: "fetch (?S (\<lambda>url options. Inr ?html)) ONESIGNAL_URL ?options = Inr ?html \<and>
      responseCode ?html = 200 \<and> json_parse demo_engine (contentText ?html) = Inl ?bad"
    by (simp add: demo_request_eval)
  show ?thesis
    using w [THEN conjunct2, THEN conjunct1, rule_format, OF ok]
      w [THEN conjunct2, THEN conjunct2, THEN conjunct1, rule_format, OF zero]
      w [THEN conjunct2, THEN conjunct2, THEN conjunct2, THEN conjunct1, rule_format, OF ise]
      w [THEN conjunct2, THEN conjunct2, THEN conjunct2, THEN conjunct2, THEN conjunct1,
        rule_format, OF down]
      w [THEN conjunct2, THEN conjunct2, THEN conjunct2, THEN conjunct2, THEN conjunct2,
        rule_format, OF html]
      w [THEN conjunct1, of "\<lambda>url options. Inr ?ise"]
    by (simp add: build_options_def build_notification_def demo_engine_def quoted_def
        ONESIGNAL_URL_def error_toString_def show_int_def show_nat.simps digit_unit_def ascii_def)
qed

text \<open>
  C7. When the app identifier or the REST API key is missing from the script
  properties at the time of the call (\<open>null\<close>, or the empty string, which the
  test \<open>!value\<close> treats alike), a \<open>sendNotificationToClient\<close> request gets the
  error envelope at once: the handler logs, reads the two properties, logs the
  error and returns, and \<open>UrlFetchApp.fetch\<close> is not called.
\<close>

theorem sendNotification_without_credentials:
  assumes "postData e = Some body"
    and "json_parse E body = Inr payload"
    and "get_prop E payload (ascii ''action'') = Inr (Prim (Str (ascii ''sendNotificationToClient'')))"
    and "property_missing (getProperty S (ascii ''ONE_SIGNAL_APP_ID'')) \<or>
         property_missing (getProperty S (ascii ''ONE_SIGNAL_REST_API_KEY''))"
  shows "doPost E S e =
           ([Logged started_msg,
             Logged (received_msg E (ascii ''sendNotificationToClient'') payload),
             Logged (ascii ''Attempting to send notification. Received payload: '' @
                     json_stringify E payload),
             GetProperty (ascii ''ONE_SIGNAL_APP_ID''),
             GetProperty (ascii ''ONE_SIGNAL_REST_API_KEY''),
             Logged (ascii ''ERROR in handleSendNotification: OneSignal App ID or API Key not set in Script Properties.'')],
            createJsonResponse E
              (envelope ''error''
                 (ascii ''OneSignal App ID or API Key not set in Script Properties.''))) \<and>
         filter is_fetch (fst (doPost E S e)) = []"
proof -
  have "doPost E S e =
           ([Logged started_msg,
             Logged (received_msg E (ascii ''sendNotificationToClient'') payload),
             Logged (ascii ''Attempting to send notification. Received payload: '' @
                     json_stringify E payload),
             GetProperty (ascii ''ONE_SIGNAL_APP_ID''),
             GetProperty (ascii ''ONE_SIGNAL_REST_API_KEY''),
             Logged (ascii ''ERROR in handleSendNotification: OneSignal App ID or API Key not set in Script Properties.'')],
            createJsonResponse E
              (envelope ''error''
                 (ascii ''OneSignal App ID or API Key not set in Script Properties.'')))"
    by (simp add: doPost_def doPost_sendNotification [OF assms(1,2,3)]
        handleSendNotification_missing [OF assms(4)] credentials_missing_msg_def ascii_def)
  then show ?thesis
    by (simp add: is_fetch_def)
qed

theorem sendNotification_without_credentials_witness:
  \<open>property_missing
      (getProperty
         (demo_services\<lparr>getProperty := map_of [(ascii ''ONE_SIGNAL_APP_ID'', ascii ''app-1'')]\<rparr>)
         (ascii ''ONE_SIGNAL_REST_API_KEY'')) \<and>
   snd (doPost demo_engine
          (demo_services\<lparr>getProperty := map_of [(ascii ''ONE_SIGNAL_APP_ID'', ascii ''app-1'')]\<rparr>)
          \<lparr>postData = Some (ascii ''{"action":"sendNotificationToClient","clientId":123,"title":"Hi","message":"Ready"}'')\<rparr>) =
     \<lparr>content = ascii ''{"status":"error","message":"OneSignal App ID or API Key not set in Script Properties."}'',
      mimeType = ascii ''JSON''\<rparr> \<and>
   filter is_fetch
     (fst (doPost demo_engine
          (demo_services\<lparr>getProperty := map_of [(ascii ''ONE_SIGNAL_APP_ID'', ascii ''app-1'')]\<rparr>)
          \<lparr>postData = Some (ascii ''{"action":"sendNotificationToClient","clientId":123,"title":"Hi","message":"Ready"}'')\<rparr>)) = []\<close>
proof -
  let ?S = "demo_services\<lparr>getProperty := map_of [(ascii ''ONE_SIGNAL_APP_ID'', ascii ''app-1'')]\<rparr>"
  let ?body = \<open>ascii ''{"action":"sendNotificationToClient","clientId":123,"title":"Hi","message":"Ready"}''\<close>
  let ?payload = "request ''sendNotificationToClient''
         [(''clientId'', Num 123), (''title'', Str (ascii ''Hi'')),
          (''message'', Str (ascii ''Ready''))]"
  have p: "postData \<lparr>postData = Some ?body\<rparr> = Some ?body"
    by simp
  have j: "json_parse demo_engine ?body = Inr ?payload"
    by (simp add: demo_request_eval)
  have a: "get_prop demo_engine ?payload (ascii ''action'') =
      Inr (Prim (Str (ascii ''sendNotificationToClient'')))"
    by (simp add: demo_request_eval)
  have m: "property_missing (getProperty ?S (ascii ''ONE_SIGNAL_APP_ID'')) \<or>
      property_missing (getProperty ?S (ascii ''ONE_SIGNAL_REST_API_KEY''))"
    by (simp add: property_missing_def)
  have s: \<open>demo_stringify (envelope ''error''
        (ascii ''OneSignal App ID or API Key not set in Script Properties.'')) =
      ascii ''{"status":"error","message":"OneSignal App ID or API Key not set in Script Properties."}''\<close>
    by (simp add: envelope_def quoted_def ascii_def)
  have k: "json_stringify demo_engine = demo_stringify"
    by (simp add: demo_engine_def)
  note w = sendNotification_without_credentials [OF p j a m]
  show ?thesis
    using w [THEN conjunct2] arg_cong [OF w [THEN conjunct1], of snd]
    by (simp add: createJsonResponse_def k s property_missing_def)
qed

section \<open>Row normalisation\<close>

text \<open>
  C8, as amended. A sheet with fewer than two rows gives the empty list, without
  an error and without reading a range. A sheet with a header row and \<open>N\<close> data
  rows gives \<open>N\<close> records, the record of each data row in the order of the rows,
  and the key set of every record is the set of the strings of the header row
  without \<open>__proto__\<close>.
\<close>

theorem getSheetData_records:
  "(lastRow sh < 2 \<longrightarrow> getSheetData E S (Some sh) = ([], Inr [])) \<and>
   (2 \<le> lastRow sh \<and> 1 \<le> lastColumn sh \<longrightarrow>
      snd (getSheetData E S (Some sh)) =
        Inr (map (row_to_object E (header_cells sh)) (data_rows sh)) \<and>
      length (data_rows sh) = lastRow sh - 1 \<and>
      map record_keys (map (row_to_object E (header_cells sh)) (data_rows sh)) =
        replicate (lastRow sh - 1) (header_keys E sh - {ascii ''__proto__''}))"
proof -
  have "map record_keys (map (row_to_object E (header_cells sh)) (data_rows sh)) =
        replicate (lastRow sh - 1) (header_keys E sh - {ascii ''__proto__''})"
    by (simp add: keys_row_to_object header_keys_def comp_def map_replicate_const
        length_data_rows)
  then show ?thesis
    by (simp add: getSheetData_short getSheetData_rows sheet_records_def length_data_rows)
qed

theorem getSheetData_records_witness:
  "lastRow header_only < 2 \<and>
   getSheetData demo_engine demo_services (Some header_only) = ([], Inr []) \<and>
   2 \<le> lastRow demo_customers \<and> 1 \<le> lastColumn demo_customers \<and>
   snd (getSheetData demo_engine demo_services (Some demo_customers)) =
     Inr [[(KEY_CUSTOMER_NUMBER, Num 123), (KEY_PHONE, Str (ascii ''0527654321'')),
           (ascii ''joined'', Str (ascii ''2024-01-01T00:00:00.000Z''))],
          [(KEY_CUSTOMER_NUMBER, Str (ascii ''456 '')), (KEY_PHONE, Str (ascii ''0501234567'')),
           (ascii ''joined'', Str [])],
          [(KEY_CUSTOMER_NUMBER, Num 789), (KEY_PHONE, Str (ascii ''0501234567'')),
           (ascii ''joined'', Str [])]] \<and>
   header_keys demo_engine demo_customers - {ascii ''__proto__''} =
     {KEY_CUSTOMER_NUMBER, KEY_PHONE, ascii ''joined''}"
proof -
  have a: "lastRow header_only < 2"
    by (simp add: header_only_def sheet_of_def)
  have b: "2 \<le> lastRow demo_customers" "1 \<le> lastColumn demo_customers"
    by (simp_all add: demo_customers_def sheet_of_def)
  have c: "map (row_to_object demo_engine (header_cells demo_customers)) (data_rows demo_customers) =
     [[(KEY_CUSTOMER_NUMBER, Num 123), (KEY_PHONE, Str (ascii ''0527654321'')),
           (ascii ''joined'', Str (ascii ''2024-01-01T00:00:00.000Z''))],
          [(KEY_CUSTOMER_NUMBER, Str (ascii ''456 '')), (KEY_PHONE, Str (ascii ''0501234567'')),
           (ascii ''joined'', Str [])],
          [(KEY_CUSTOMER_NUMBER, Num 789), (KEY_PHONE, Str (ascii ''0501234567'')),
           (ascii ''joined'', Str [])]]"
    by (simp add: demo_customers_def sheet_eval demo_engine_def demo_dates_def
        KEY_CUSTOMER_NUMBER_def KEY_PHONE_def ascii_def)
  have d: "header_keys demo_engine demo_customers - {ascii ''__proto__''} =
     {KEY_CUSTOMER_NUMBER, KEY_PHONE, ascii ''joined''}"
    by (simp add: header_keys_def demo_customers_def sheet_eval
        KEY_CUSTOMER_NUMBER_def KEY_PHONE_def) (auto simp: ascii_def)
  show ?thesis
    using getSheetData_records [of header_only demo_engine demo_services]
      getSheetData_records [of demo_customers demo_engine demo_services] a b c d
    by simp
qed

text \<open>
  C8, as stated, fails on a sheet with a column named \<open>__proto__\<close>: the
  assignment \<open>rowObject["__proto__"] = "x"\<close> creates no property, so the record
  of the data row has the key \<open>name\<close> only, while the header row has two strings.
\<close>

theorem getSheetData_keys_counterexample:
  "snd (getSheetData demo_engine demo_services (Some proto_sheet)) =
     Inr [[(ascii ''name'', Str (ascii ''Dana''))]] \<and>
   map (cell_key demo_engine) (header_cells proto_sheet) = [ascii ''__proto__'', ascii ''name''] \<and>
   record_keys [(ascii ''name'', Str (ascii ''Dana'') :: int prim)] \<noteq>
     set [ascii ''__proto__'', ascii ''name'']"
  by (simp add: proto_sheet_def sheet_eval record_keys_def)

section \<open>The order status stub\<close>

text \<open>
  C9. \<open>handleUpdateOrderStatus\<close> returns the success envelope
  \<open>{status: "success", message}\<close> and calls no service at all: no sheet is read
  or written. A request with the action \<open>updateOrderStatus\<close> gets that envelope,
  and \<open>doPost\<close> writes two log lines and does nothing else.
\<close>

theorem updateOrderStatus_stub:
  "handleUpdateOrderStatus E payload =
     ([], Inr (createJsonResponse E
                 (envelope ''success'' (ascii ''Status updated successfully (simulation).'')))) \<and>
   (postData e = Some body \<and> json_parse E body = Inr payload \<and>
    get_prop E payload (ascii ''action'') = Inr (Prim (Str (ascii ''updateOrderStatus''))) \<longrightarrow>
      doPost E S e =
        ([Logged started_msg, Logged (received_msg E (ascii ''updateOrderStatus'') payload)],
         createJsonResponse E
           (envelope ''success'' (ascii ''Status updated successfully (simulation).''))))"
proof -
  have "handleUpdateOrderStatus E payload =
     ([], Inr (createJsonResponse E
                 (envelope ''success'' (ascii ''Status updated successfully (simulation).''))))"
    by (simp add: handleUpdateOrderStatus_def ret_def)
  then show ?thesis
    by (auto simp: doPost_def doPost_try_action dispatch_updateOrderStatus)
qed

theorem updateOrderStatus_stub_witness:
  \<open>postData \<lparr>postData = Some (ascii ''{"action":"updateOrderStatus","orderId":7}'')\<rparr> =
      Some (ascii ''{"action":"updateOrderStatus","orderId":7}'') \<and>
   json_parse demo_engine (ascii ''{"action":"updateOrderStatus","orderId":7}'') =
      Inr (request ''updateOrderStatus'' [(''orderId'', Num 7)]) \<and>
   get_prop demo_engine (request ''updateOrderStatus'' [(''orderId'', Num 7)]) (ascii ''action'') =
      Inr (Prim (Str (ascii ''updateOrderStatus''))) \<and>
   doPost demo_engine demo_services
      \<lparr>postData = Some (ascii ''{"action":"updateOrderStatus","orderId":7}'')\<rparr> =
     ([Logged (ascii ''API v1.3 Running...''),
       Logged (ascii ''Received action: updateOrderStatus with payload: {"action":"updateOrderStatus","orderId":7}'')],
      \<lparr>content = ascii ''{"status":"success","message":"Status updated successfully (simulation)."}'',
       mimeType = ascii ''JSON''\<rparr>)\<close>
proof -
  have p: \<open>json_parse demo_engine (ascii ''{"action":"updateOrderStatus","orderId":7}'') =
      Inr (request ''updateOrderStatus'' [(''orderId'', Num 7)])\<close>
    by (simp add: demo_request_eval)
  have g: "get_prop demo_engine (request ''updateOrderStatus'' [(''orderId'', Num 7)])
      (ascii ''action'') = Inr (Prim (Str (ascii ''updateOrderStatus'')))"
    by (simp add: demo_request_eval)
  have s: \<open>demo_stringify (request ''updateOrderStatus'' [(''orderId'', Num 7)]) =
      ascii ''{"action":"updateOrderStatus","orderId":7}''\<close>
    by (simp add: request_def quoted_def show_int_def show_nat.simps digit_unit_def ascii_def)
  have t: \<open>demo_stringify
      (envelope ''success'' (ascii ''Status updated successfully (simulation).'')) =
      ascii ''{"status":"success","message":"Status updated successfully (simulation)."}''\<close>
    by (simp add: envelope_def quoted_def ascii_def)
  show ?thesis
    using updateOrderStatus_stub [of demo_engine _ _ _ demo_services, THEN conjunct2, rule_format,
        OF conjI [OF _ conjI [OF p g]]] p g s t
    by (simp add: started_msg_def received_msg_def SCRIPT_VERSION_def createJsonResponse_def
        demo_engine_def ascii_def)
qed

section \<open>Missing sheets\<close>

text \<open>
  C10. \<open>getSheetData\<close> on \<open>null\<close>, the result of \<open>getSheetByName\<close> for a sheet
  that does not exist, is the empty list and not an error. So the all-orders
  feed takes a missing table as a table without orders, and the client lookup
  answers \<open>Client not found\<close> when the customers sheet is missing and returns
  empty \<open>containers\<close> and \<open>materialOrders\<close> when those sheets are missing.
\<close>

theorem missing_sheet_is_empty:
  "getSheetData E S None = ([], Inr []) \<and>
   (openById S SPREADSHEET_ID = Inr ss \<and> ss SHEET_MATERIAL_ORDERS = None \<and>
    table_ok (ss SHEET_CONTAINER_ORDERS) \<longrightarrow>
      snd (handleGetAllOrders E S) =
        Inr (createJsonResponse E
               (all_orders (merged_orders E [] (table_records E (ss SHEET_CONTAINER_ORDERS)))))) \<and>
   (openById S SPREADSHEET_ID = Inr ss \<and> table_ok (ss SHEET_MATERIAL_ORDERS) \<and>
    ss SHEET_CONTAINER_ORDERS = None \<longrightarrow>
      snd (handleGetAllOrders E S) =
        Inr (createJsonResponse E
               (all_orders (merged_orders E (table_records E (ss SHEET_MATERIAL_ORDERS)) [])))) \<and>
   (openById S SPREADSHEET_ID = Inr ss \<and> ss SHEET_CUSTOMERS = None \<and>
    get_prop E payload (ascii ''customerId'') = Inr c \<and> to_string E c = Inr s \<longrightarrow>
      snd (handleGetClientData E S payload) =
        Inr (createJsonResponse E (envelope ''error'' (ascii ''Client not found'')))) \<and>
   (openById S SPREADSHEET_ID = Inr ss \<and>
    get_prop E payload (ascii ''customerId'') = Inr c \<and> to_string E c = Inr s \<and>
    table_ok (ss SHEET_CUSTOMERS) \<and>
    find (matches_customer E (trim s)) (table_records E (ss SHEET_CUSTOMERS)) = Some user \<and>
    ss SHEET_CONTAINER_RENTALS = None \<and> ss SHEET_MATERIAL_ORDERS = None \<longrightarrow>
      snd (handleGetClientData E S payload) =
        Inr (createJsonResponse E (client_data user [] [])))"
proof (intro conjI impI)
  show "getSheetData E S None = ([], Inr [])"
    by (rule getSheetData_None)
next
  assume "openById S SPREADSHEET_ID = Inr ss \<and> ss SHEET_MATERIAL_ORDERS = None \<and>
    table_ok (ss SHEET_CONTAINER_ORDERS)"
  then show "snd (handleGetAllOrders E S) =
        Inr (createJsonResponse E
               (all_orders (merged_orders E [] (table_records E (ss SHEET_CONTAINER_ORDERS)))))"
    using handleGetAllOrders_result [of S ss E] by simp
next
  assume "openById S SPREADSHEET_ID = Inr ss \<and> table_ok (ss SHEET_MATERIAL_ORDERS) \<and>
    ss SHEET_CONTAINER_ORDERS = None"
  then show "snd (handleGetAllOrders E S) =
        Inr (createJsonResponse E
               (all_orders (merged_orders E (table_records E (ss SHEET_MATERIAL_ORDERS)) [])))"
    using handleGetAllOrders_result [of S ss E] by simp
next
  assume "openById S SPREADSHEET_ID = Inr ss \<and> ss SHEET_CUSTOMERS = None \<and>
    get_prop E payload (ascii ''customerId'') = Inr c \<and> to_string E c = Inr s"
  then show "snd (handleGetClientData E S payload) =
        Inr (createJsonResponse E (envelope ''error'' (ascii ''Client not found'')))"
    using lookup_without_match [of S ss E payload c s] by simp
next
  assume "openById S SPREADSHEET_ID = Inr ss \<and>
    get_prop E payload (ascii ''customerId'') = Inr c \<and> to_string E c = Inr s \<and>
    table_ok (ss SHEET_CUSTOMERS) \<and>
    find (matches_customer E (trim s)) (table_records E (ss SHEET_CUSTOMERS)) = Some user \<and>
    ss SHEET_CONTAINER_RENTALS = None \<and> ss SHEET_MATERIAL_ORDERS = None"
  then show "snd (handleGetClientData E S payload) =
        Inr (createJsonResponse E (client_data user [] []))"
    using handleGetClientData_result [of S ss E payload c s] by simp
qed

theorem missing_sheet_is_empty_witness:
  "snd (handleGetAllOrders demo_engine (demo_services\<lparr>openById := \<lambda>i. Inr orders_only\<rparr>)) =
     Inr (createJsonResponse demo_engine
            (all_orders
               [[(KEY_CUSTOMER_NUMBER, Num 456),
                 (KEY_ORDER_DATE, Str (ascii ''2024-01-02T00:00:00.000Z'')),
                 (ascii ''orderType'', Str (ascii ''container''))]])) \<and>
   snd (handleGetAllOrders demo_engine (demo_services\<lparr>openById := \<lambda>i. Inr no_sheets\<rparr>)) =
     Inr (createJsonResponse demo_engine (all_orders [])) \<and>
   snd (handleGetClientData demo_engine (demo_services\<lparr>openById := \<lambda>i. Inr no_sheets\<rparr>)
          (request ''getClientData'' [(''customerId'', Num 999)])) =
     Inr (createJsonResponse demo_engine (envelope ''error'' (ascii ''Client not found''))) \<and>
   snd (handleGetClientData demo_engine (demo_services\<lparr>openById := \<lambda>i. Inr customers_only\<rparr>)
          (request ''getClientData'' [(''customerId'', Str (ascii '' 0501234567''))])) =
     Inr (createJsonResponse demo_engine
            (client_data
               [(KEY_CUSTOMER_NUMBER, Str (ascii ''456 '')),
                (KEY_PHONE, Str (ascii ''0501234567'')), (ascii ''joined'', Str [])] [] []))"
proof -
  let ?S1 = "demo_services\<lparr>openById := \<lambda>i. Inr orders_only\<rparr>"
  let ?S2 = "demo_services\<lparr>openById := \<lambda>i. Inr no_sheets\<rparr>"
  let ?S3 = "demo_services\<lparr>openById := \<lambda>i. Inr customers_only\<rparr>"
  have m: "merged_orders demo_engine [] (table_records demo_engine (orders_only SHEET_CONTAINER_ORDERS)) =
     [[(KEY_CUSTOMER_NUMBER, Num 456),
       (KEY_ORDER_DATE, Str (ascii ''2024-01-02T00:00:00.000Z'')),
       (ascii ''orderType'', Str (ascii ''container''))]]"
    by (simp add: orders_only_def demo_orders_def record_eval merged_orders_def js_sort_def
        with_orderType_def demo_engine_def demo_dates_def column_names ascii_def)
  have a: "openById ?S1 SPREADSHEET_ID = Inr orders_only \<and>
      orders_only SHEET_MATERIAL_ORDERS = None \<and> table_ok (orders_only SHEET_CONTAINER_ORDERS)"
    by (simp add: orders_only_def sheet_names table_ok_def sheet_ok_def demo_orders_def sheet_of_def)
  have b: "openById ?S2 SPREADSHEET_ID = Inr no_sheets \<and>
      table_ok (no_sheets SHEET_MATERIAL_ORDERS) \<and> no_sheets SHEET_CONTAINER_ORDERS = None"
    by (simp add: no_sheets_def)
  have c: "openById ?S2 SPREADSHEET_ID = Inr no_sheets \<and> no_sheets SHEET_CUSTOMERS = None \<and>
      get_prop demo_engine (request ''getClientData'' [(''customerId'', Num 999)])
        (ascii ''customerId'') = Inr (Prim (Num 999)) \<and>
      to_string demo_engine (Prim (Num 999)) = Inr (ascii ''999'')"
    by (simp add: no_sheets_def demo_request_eval prim_to_string_def show_int_def
        show_nat.simps digit_unit_def ascii_def)
  have d: "openById ?S3 SPREADSHEET_ID = Inr customers_only \<and>
      get_prop demo_engine (request ''getClientData'' [(''customerId'', Str (ascii '' 0501234567''))])
        (ascii ''customerId'') = Inr (Prim (Str (ascii '' 0501234567''))) \<and>
      to_string demo_engine (Prim (Str (ascii '' 0501234567''))) = Inr (ascii '' 0501234567'') \<and>
      table_ok (customers_only SHEET_CUSTOMERS) \<and>
      find (matches_customer demo_engine (trim (ascii '' 0501234567'')))
        (table_records demo_engine (customers_only SHEET_CUSTOMERS)) =
        Some [(KEY_CUSTOMER_NUMBER, Str (ascii ''456 '')),
              (KEY_PHONE, Str (ascii ''0501234567'')), (ascii ''joined'', Str [])] \<and>
      customers_only SHEET_CONTAINER_RENTALS = None \<and> customers_only SHEET_MATERIAL_ORDERS = None"
    by (simp add: customers_only_def demo_request_eval prim_to_string_def table_ok_def sheet_ok_def
        demo_customers_def record_eval matches_customer_def trimmed_field_def get_field_def
        trim_def is_js_space_def show_int_def show_nat.simps digit_unit_def
        sheet_names column_names ascii_def)
  show ?thesis
    using missing_sheet_is_empty [of demo_engine ?S1 orders_only, THEN conjunct2, THEN conjunct1,
        rule_format, OF a]
      missing_sheet_is_empty [of demo_engine ?S2 no_sheets, THEN conjunct2, THEN conjunct2,
        THEN conjunct1, rule_format, OF b]
      missing_sheet_is_empty [of demo_engine ?S2 no_sheets, THEN conjunct2, THEN conjunct2,
        THEN conjunct2, THEN conjunct1, rule_format, OF c]
      missing_sheet_is_empty [of demo_engine ?S3 customers_only, THEN conjunct2, THEN conjunct2,
        THEN conjunct2, THEN conjunct2, rule_format, OF d]
    by (simp add: m no_sheets_def)
qed

end
